theory Spec2Isabelle
  imports Main "HOL-Library.Char_ord" "HOL-Library.List_Lexorder" "HOL-Library.Sublist"
    "HOL-Library.Multiset"
begin

section \<open>The directory listing middleware of lib/core/show-dir/index.js\<close>

text \<open>
  The middleware of \<^verbatim>\<open>index.js\<close> answers a request for a directory with an HTML
  listing. It is embedded as a function from the options, the libraries it calls, a file
  system and a request to the calls it makes on the response object (\<open>setHeader\<close>,
  \<open>writeHead\<close>, \<open>end\<close>, the status handler, \<open>next\<close>), in order, together with the
  exception that escapes, if one does. The file system answers every call at once: a call
  that never calls back is outside the model.
\<close>

subsection \<open>JavaScript strings\<close>

text \<open>
  A string is the list of the bytes of its UTF-8 encoding. The characters the code looks
  for (the dot, the slash, \<^verbatim>\<open>T\<close>, the suffix \<^verbatim>\<open>.url\<close>) are ASCII, and an ASCII byte of
  a UTF-8 string is that character, so splitting, comparing a prefix or a suffix and
  cutting four characters off the end of a name that ends in \<^verbatim>\<open>.url\<close> give the same
  result on the bytes as on the code units the code works on.

  \<open>split_on c s\<close> is \<^verbatim>\<open>s.split(c)\<close> for a separator of one character: it always returns
  at least one piece.
\<close>

fun split_on :: "char \<Rightarrow> string \<Rightarrow> string list" where
  "split_on c [] = [[]]"
| "split_on c (x # xs) =
     (if x = c then [] # split_on c xs
      else (case split_on c xs of
              [] \<Rightarrow> [[x]]
            | y # ys \<Rightarrow> (x # y) # ys))"

fun join_with :: "string \<Rightarrow> string list \<Rightarrow> string" where
  "join_with sep [] = []"
| "join_with sep [x] = x"
| "join_with sep (x # y # ys) = x @ sep @ join_with sep (y # ys)"

text \<open>\<^verbatim>\<open>s.endsWith(suf)\<close> and \<^verbatim>\<open>s.replace(pat, rep)\<close> with a string pattern, which
  replaces the first occurrence only.\<close>

definition ends_with :: "string \<Rightarrow> string \<Rightarrow> bool" where
  "ends_with suf s = (length suf \<le> length s \<and> drop (length s - length suf) s = suf)"

fun js_replace :: "string \<Rightarrow> string \<Rightarrow> string \<Rightarrow> string" where
  "js_replace pat rep [] = (if pat = [] then rep else [])"
| "js_replace pat rep (c # cs) =
     (if take (length pat) (c # cs) = pat then rep @ drop (length pat) (c # cs)
      else c # js_replace pat rep cs)"

text \<open>
  \<^verbatim>\<open>s.trim()\<close> removes white space and line terminators at both ends. These are the
  code points U+0009 to U+000D, U+0020, U+00A0, U+1680, U+2000 to U+200A, U+2028, U+2029,
  U+202F, U+205F, U+3000 and U+FEFF, listed here by their UTF-8 encodings.
\<close>

definition white_space :: "string list" where
  "white_space =
     [[CHR 0x09], [CHR 0x0A], [CHR 0x0B], [CHR 0x0C], [CHR 0x0D], [CHR 0x20],
      [CHR 0xC2, CHR 0xA0],
      [CHR 0xE1, CHR 0x9A, CHR 0x80],
      [CHR 0xE2, CHR 0x80, CHR 0x80], [CHR 0xE2, CHR 0x80, CHR 0x81],
      [CHR 0xE2, CHR 0x80, CHR 0x82], [CHR 0xE2, CHR 0x80, CHR 0x83],
      [CHR 0xE2, CHR 0x80, CHR 0x84], [CHR 0xE2, CHR 0x80, CHR 0x85],
      [CHR 0xE2, CHR 0x80, CHR 0x86], [CHR 0xE2, CHR 0x80, CHR 0x87],
      [CHR 0xE2, CHR 0x80, CHR 0x88], [CHR 0xE2, CHR 0x80, CHR 0x89],
      [CHR 0xE2, CHR 0x80, CHR 0x8A],
      [CHR 0xE2, CHR 0x80, CHR 0xA8], [CHR 0xE2, CHR 0x80, CHR 0xA9],
      [CHR 0xE2, CHR 0x80, CHR 0xAF],
      [CHR 0xE2, CHR 0x81, CHR 0x9F],
      [CHR 0xE3, CHR 0x80, CHR 0x80],
      [CHR 0xEF, CHR 0xBB, CHR 0xBF]]"

text \<open>\<open>strip_start seqs s\<close> drops from the start of \<open>s\<close>, as long as there is one, a
  sequence of \<open>seqs\<close> that \<open>s\<close> starts with.\<close>

function strip_start :: "string list \<Rightarrow> string \<Rightarrow> string" where
  "strip_start seqs s =
     (case find (\<lambda>w. w \<noteq> [] \<and> take (length w) s = w) seqs of
        None \<Rightarrow> s
      | Some w \<Rightarrow> strip_start seqs (drop (length w) s))"
  by pat_completeness auto
termination
proof (relation "measure (\<lambda>(seqs, s). length s)")
  show "wf (measure (\<lambda>(seqs, s). length s))" by simp
next
  fix seqs :: "string list" and s w :: string
  assume "find (\<lambda>w. w \<noteq> [] \<and> take (length w) s = w) seqs = Some w"
  then have "w \<noteq> []" and "take (length w) s = w"
    by (auto simp: find_Some_iff)
  then have "s \<noteq> []" by auto
  with \<open>w \<noteq> []\<close> show "((seqs, drop (length w) s), (seqs, s)) \<in> measure (\<lambda>(seqs, s). length s)"
    by simp
qed

declare strip_start.simps [simp del]

definition js_trim :: "string \<Rightarrow> string" where
  "js_trim s = rev (strip_start (map rev white_space) (rev (strip_start white_space s)))"

text \<open>The UTF-8 encoding of a code point, to read the list above by.\<close>

definition utf8 :: "nat \<Rightarrow> string" where
  "utf8 n =
     (if n < 0x80 then [char_of n]
      else if n < 0x800 then [char_of (0xC0 + n div 0x40), char_of (0x80 + n mod 0x40)]
      else if n < 0x10000 then
        [char_of (0xE0 + n div 0x1000), char_of (0x80 + n div 0x40 mod 0x40),
         char_of (0x80 + n mod 0x40)]
      else
        [char_of (0xF0 + n div 0x40000), char_of (0x80 + n div 0x1000 mod 0x40),
         char_of (0x80 + n div 0x40 mod 0x40), char_of (0x80 + n mod 0x40)])"

text \<open>\<^verbatim>\<open>s.repeat(n)\<close>.\<close>

definition js_repeat :: "nat \<Rightarrow> string \<Rightarrow> string" where
  "js_repeat n s = concat (replicate n s)"

text \<open>\<^verbatim>\<open>pathname.replace(/\/$/, '')\<close>: one slash at the end is dropped.\<close>

definition strip_trailing_slash :: "string \<Rightarrow> string" where
  "strip_trailing_slash s = (if s \<noteq> [] \<and> last s = CHR ''/'' then butlast s else s)"

definition dq :: string where
  "dq = [CHR 0x22]"

subsection \<open>Node's path module (POSIX)\<close>

text \<open>
  \<open>normalizeArray\<close> is the loop of Node's \<^verbatim>\<open>normalizeString\<close> over the segments of a path:
  empty segments and \<^verbatim>\<open>.\<close> are skipped, \<^verbatim>\<open>..\<close> removes the segment before it, and
  is kept only where the path may climb above its start. The result is built in reverse.
\<close>

fun normalizeArray :: "bool \<Rightarrow> string list \<Rightarrow> string list \<Rightarrow> string list" where
  "normalizeArray allowAboveRoot res [] = rev res"
| "normalizeArray allowAboveRoot res (s # ss) =
     (if s = [] \<or> s = ''.'' then normalizeArray allowAboveRoot res ss
      else if s = ''..'' then
        (case res of
           [] \<Rightarrow> normalizeArray allowAboveRoot (if allowAboveRoot then [''..''] else []) ss
         | r # rs \<Rightarrow>
             if r \<noteq> ''..'' then normalizeArray allowAboveRoot rs ss
             else normalizeArray allowAboveRoot (if allowAboveRoot then ''..'' # res else res) ss)
      else normalizeArray allowAboveRoot (s # res) ss)"

definition normalizeString :: "string \<Rightarrow> bool \<Rightarrow> string" where
  "normalizeString p allowAboveRoot =
     join_with ''/'' (normalizeArray allowAboveRoot [] (split_on CHR ''/'' p))"

definition path_normalize :: "string \<Rightarrow> string" where
  "path_normalize p =
     (if p = [] then ''.''
      else
        (let isAbsolute = (hd p = CHR ''/'');
             trailingSeparator = (last p = CHR ''/'');
             np = normalizeString p (\<not> isAbsolute)
         in if np = [] then
              (if isAbsolute then ''/'' else if trailingSeparator then ''./'' else ''.'')
            else
              (let np' = (if trailingSeparator then np @ ''/'' else np)
               in if isAbsolute then ''/'' @ np' else np')))"

definition path_join :: "string list \<Rightarrow> string" where
  "path_join args =
     (let joined = join_with ''/'' (filter (\<lambda>a. a \<noteq> []) args)
      in if joined = [] then ''.'' else path_normalize joined)"

text \<open>
  \<^verbatim>\<open>path.resolve\<close> goes through its arguments from the right until one is absolute, the
  working directory being the last resort. \<open>resolve_concat\<close> is the path it has
  collected by then.
\<close>

fun resolve_concat :: "string list \<Rightarrow> string" where
  "resolve_concat [] = []"
| "resolve_concat (p # ps) =
     (let rest = resolve_concat ps
      in if rest \<noteq> [] \<and> hd rest = CHR ''/'' then rest
         else if p = [] then rest
         else p @ ''/'' @ rest)"

definition path_resolve :: "string \<Rightarrow> string list \<Rightarrow> string" where
  "path_resolve cwd args =
     (let resolvedPath = resolve_concat (cwd # args);
          resolvedAbsolute = (resolvedPath \<noteq> [] \<and> hd resolvedPath = CHR ''/'');
          np = normalizeString resolvedPath (\<not> resolvedAbsolute)
      in if resolvedAbsolute then ''/'' @ np
         else if np \<noteq> [] then np else ''.'')"

text \<open>
  \<^verbatim>\<open>path.relative(from, to)\<close>: both paths are resolved; the result climbs out of what is
  left of \<open>from\<close> after the common leading segments and descends into what is left of
  \<open>to\<close>.
\<close>

fun common_prefix_length :: "string list \<Rightarrow> string list \<Rightarrow> nat" where
  "common_prefix_length (x # xs) (y # ys) =
     (if x = y then Suc (common_prefix_length xs ys) else 0)"
| "common_prefix_length _ _ = 0"

definition path_segments :: "string \<Rightarrow> string list" where
  "path_segments p = filter (\<lambda>s. s \<noteq> []) (split_on CHR ''/'' p)"

definition path_relative :: "string \<Rightarrow> string \<Rightarrow> string \<Rightarrow> string" where
  "path_relative cwd from to =
     (if from = to then []
      else
        (let f = path_resolve cwd [from];
             t = path_resolve cwd [to]
         in if f = t then []
            else
              (let fs = path_segments f;
                   ts = path_segments t;
                   n = common_prefix_length fs ts
               in join_with ''/'' (replicate (length fs - n) ''..'' @ drop n ts))))"

subsection \<open>Errors, dates and file metadata\<close>

text \<open>
  An error value: what \<^verbatim>\<open>fs\<close> reports (with its message), or one of the exceptions
  the runtime throws.
\<close>

datatype js_error = SystemError string | TypeError | RangeError | URIError

fun error_toString :: "js_error \<Rightarrow> string" where
  "error_toString (SystemError m) = ''Error: '' @ m"
| "error_toString TypeError = ''TypeError''"
| "error_toString RangeError = ''RangeError''"
| "error_toString URIError = ''URIError''"

text \<open>
  A \<^verbatim>\<open>Date\<close> is either invalid (its time value is NaN) or holds a time, given by its UTC
  fields as the getters \<^verbatim>\<open>getUTCFullYear\<close>, \<^verbatim>\<open>getUTCMonth\<close> (from 0), ... return
  them.
\<close>

record date_fields =
  utcFullYear :: int
  utcMonth :: nat
  utcDate :: nat
  utcHours :: nat
  utcMinutes :: nat
  utcSeconds :: nat
  utcMilliseconds :: nat

datatype jsdate = InvalidDate | ValidDate date_fields

definition digit_char :: "nat \<Rightarrow> char" where
  "digit_char n = ''0123456789'' ! (n mod 10)"

definition pad_digits :: "nat \<Rightarrow> nat \<Rightarrow> string" where
  "pad_digits w n = map (\<lambda>i. digit_char (n div 10 ^ i)) (rev [0..<w])"

definition iso_year :: "int \<Rightarrow> string" where
  "iso_year y =
     (if 0 \<le> y \<and> y \<le> 9999 then pad_digits 4 (nat y)
      else (if y < 0 then ''-'' else ''+'') @ pad_digits 6 (nat \<bar>y\<bar>))"

definition iso_date :: "date_fields \<Rightarrow> string" where
  "iso_date d =
     iso_year (utcFullYear d) @ ''-'' @ pad_digits 2 (utcMonth d + 1) @ ''-'' @
     pad_digits 2 (utcDate d)"

definition iso_time :: "date_fields \<Rightarrow> string" where
  "iso_time d =
     pad_digits 2 (utcHours d) @ '':'' @ pad_digits 2 (utcMinutes d) @ '':'' @
     pad_digits 2 (utcSeconds d)"

text \<open>
  \<^verbatim>\<open>dt.toISOString()\<close>, where \<open>None\<close> is \<^verbatim>\<open>undefined\<close>: reading a property of
  \<^verbatim>\<open>undefined\<close> throws a TypeError, and an invalid date throws a RangeError.
\<close>

fun toISOString :: "jsdate option \<Rightarrow> js_error + string" where
  "toISOString None = Inl TypeError"
| "toISOString (Some InvalidDate) = Inl RangeError"
| "toISOString (Some (ValidDate d)) =
     Inr (iso_date d @ ''T'' @ iso_time d @ ''.'' @ pad_digits 3 (utcMilliseconds d) @ ''Z'')"

text \<open>
  What \<^verbatim>\<open>fs.stat\<close> gives for a path: the fields of \<^verbatim>\<open>fs.Stats\<close> that the listing
  reads. The second component of a \<^verbatim>\<open>[name, stat]\<close> entry is such an object, or, for
  an entry whose stat failed, an object that has neither \<^verbatim>\<open>isDirectory\<close> nor
  \<^verbatim>\<open>mtime\<close>.
\<close>

record stats =
  isDirectory :: bool
  mtime :: jsdate
  st_size :: nat

datatype statslot = StatsObj stats | ErrObj js_error

type_synonym entry = "string \<times> statslot"

text \<open>\<^verbatim>\<open>file[1].isDirectory && file[1].isDirectory()\<close> and \<^verbatim>\<open>file[1].mtime\<close>.\<close>

fun slot_isDir :: "statslot \<Rightarrow> bool" where
  "slot_isDir (StatsObj s) = isDirectory s"
| "slot_isDir (ErrObj e) = False"

fun slot_mtime :: "statslot \<Rightarrow> jsdate option" where
  "slot_mtime (StatsObj s) = Some (mtime s)"
| "slot_mtime (ErrObj e) = None"

text \<open>\<^verbatim>\<open>a.toString()\<close> of an entry, which is an array: its elements' strings, joined by a
  comma.\<close>

fun slot_toString :: "statslot \<Rightarrow> string" where
  "slot_toString (StatsObj s) = ''[object Object]''"
| "slot_toString (ErrObj e) = error_toString e"

definition entry_toString :: "entry \<Rightarrow> string" where
  "entry_toString a = fst a @ '','' @ slot_toString (snd a)"

subsection \<open>Options, libraries, file system, request and response\<close>

record opts =
  cache :: string
  root :: string
  baseDir :: string
  humanReadable :: bool
  hidePermissions :: bool
  handleError :: bool
  showDotfiles :: bool
  si :: bool
  weakEtags :: bool

record parsed_url =
  pathname :: string
  search :: "string option"

text \<open>
  What the middleware calls and this file does not define: the working directory, Node's
  \<^verbatim>\<open>url.parse\<close>, the URI coding functions (decoding throws on a malformed escape), the
  \<^verbatim>\<open>he\<close> package's HTML escaping, the repository's \<^verbatim>\<open>etag\<close>, \<^verbatim>\<open>size-to-string\<close>
  and \<^verbatim>\<open>styles\<close> modules, and the order of \<^verbatim>\<open>localeCompare\<close>, given by a collation
  key: \<open>a.localeCompare(b)\<close> is negative, zero or positive as the key of \<open>a\<close> is less
  than, equal to or greater than the key of \<open>b\<close>. Encoding, escaping and formatting
  a size are taken to return a string for every argument.
\<close>

record 'k lib =
  cwd :: string
  url_parse :: "string \<Rightarrow> parsed_url"
  decodeURIComponent :: "string \<Rightarrow> js_error + string"
  encodeURIComponent :: "string \<Rightarrow> string"
  he_encode :: "string \<Rightarrow> string"
  etag :: "stats \<Rightarrow> bool \<Rightarrow> string"
  toUTCString :: "jsdate \<Rightarrow> string"
  sizeToString :: "statslot \<Rightarrow> bool \<Rightarrow> bool \<Rightarrow> string"
  supportedIcons :: "string \<Rightarrow> bool"
  css :: string
  collate :: "string \<Rightarrow> 'k"

text \<open>What the file system answers for a path, for each of the three calls the listing
  makes: an error (\<open>Inl\<close>) or a result.\<close>

record fsys =
  fs_stat :: "string \<Rightarrow> js_error + stats"
  fs_readdir :: "string \<Rightarrow> js_error + string list"
  fs_readFileSync :: "string \<Rightarrow> js_error + string"

text \<open>
  How a call of \<^verbatim>\<open>fs\<close> ends: it throws at once, or it calls back with an error, or it
  calls back with a result. Node checks the path before anything else and throws a
  TypeError when it holds a NUL byte; otherwise the file system answers.
\<close>

datatype 'a fs_result = Throws js_error | Fails js_error | Gives 'a

definition has_nul :: "string \<Rightarrow> bool" where
  "has_nul p = (CHR 0x00 \<in> set p)"

definition call_stat :: "fsys \<Rightarrow> string \<Rightarrow> stats fs_result" where
  "call_stat F p =
     (if has_nul p then Throws TypeError
      else (case fs_stat F p of Inl err \<Rightarrow> Fails err | Inr st \<Rightarrow> Gives st))"

definition call_readdir :: "fsys \<Rightarrow> string \<Rightarrow> string list fs_result" where
  "call_readdir F p =
     (if has_nul p then Throws TypeError
      else (case fs_readdir F p of Inl err \<Rightarrow> Fails err | Inr names \<Rightarrow> Gives names))"

text \<open>\<^verbatim>\<open>fs.readFileSync\<close> returns the content or throws.\<close>

definition call_readFileSync :: "fsys \<Rightarrow> string \<Rightarrow> js_error + string" where
  "call_readFileSync F p = (if has_nul p then Inl TypeError else fs_readFileSync F p)"

text \<open>Of a request the middleware reads \<^verbatim>\<open>req.url\<close> and \<^verbatim>\<open>req.headers.host\<close>, which
  is \<^verbatim>\<open>undefined\<close> (\<open>None\<close>) when the request has no such header.\<close>

record request =
  url :: string
  host :: "string option"

text \<open>The calls on the response object, the status handler and \<^verbatim>\<open>next\<close>.\<close>

datatype event =
    SetHeader string string
  | WriteHead nat "(string \<times> string) list"
  | End string
  | Status500 js_error
  | Next

text \<open>What a request gives: the calls made, in order, and the exception that escaped.\<close>

type_synonym outcome = "event list \<times> js_error option"

subsection \<open>Rendering a row\<close>

text \<open>
  \<^verbatim>\<open>convertDateTime\<close> (lines 100 to 110): the ISO string is cut at its first dot and the
  first \<^verbatim>\<open>T\<close> of what stands before becomes a space; when \<^verbatim>\<open>toISOString\<close> throws,
  the catch clause returns the placeholder. \<^verbatim>\<open>split\<close> returns at least one piece, so
  the first one is there.
\<close>

definition convertDateTime :: "jsdate option \<Rightarrow> string" where
  "convertDateTime dt =
     (case toISOString dt of
        Inl err \<Rightarrow> (let nbsps = js_repeat 9 ''&nbsp;'' in nbsps @ ''-'' @ nbsps)
      | Inr isoString \<Rightarrow> (let datetime = hd (split_on CHR ''.'' isoString) in js_replace ''T'' '' '' datetime))"

text \<open>What \<^verbatim>\<open>writeRow\<close> computes for an entry before it appends the row to the page.\<close>

record row =
  iconClass :: string
  href :: string
  external :: bool
  displayName :: string
  lastModified :: string
  filesize :: string

text \<open>
  \<^verbatim>\<open>writeRow\<close> (lines 111 to 148). The entry is a \<^verbatim>\<open>[name, stat]\<close> pair, \<open>parent\<close> the
  listed directory. Reading a shortcut file is the one step that can throw; the error is
  then the result. The name the row goes on with is the entry's own, or the one a
  shortcut was cut to (\<^verbatim>\<open>file[0]\<close> is assigned).
\<close>

definition writeRow ::
  "'k lib \<Rightarrow> opts \<Rightarrow> fsys \<Rightarrow> parsed_url \<Rightarrow> string \<Rightarrow> entry \<Rightarrow> js_error + row" where
  "writeRow L cfg F parsed parent file =
     (let isDir = slot_isDir (snd file);
          lastModified = convertDateTime (slot_mtime (snd file));
          href0 = strip_trailing_slash (pathname parsed) @ ''/'' @ encodeURIComponent L (fst file);
          href1 = (if isDir
                   then href0 @ ''/'' @
                        he_encode L (case search parsed of None \<Rightarrow> [] | Some q \<Rightarrow> q)
                   else href0)
      in case (if \<not> isDir \<and> ends_with ''.url'' (fst file)
               then (case call_readFileSync F (path_resolve (cwd L) [parent, fst file]) of
                       Inl err \<Rightarrow> Inl err
                     | Inr content \<Rightarrow>
                         Inr (js_trim content, take (length (fst file) - 4) (fst file), True))
               else Inr (href1, fst file, False)) of
           Inl err \<Rightarrow> Inl err
         | Inr (href2, name, ext_link) \<Rightarrow>
             (let shown = he_encode L name @ (if isDir then ''/'' else []);
                  ext = last (split_on CHR ''.'' name);
                  classForNonDir = (if supportedIcons L ext then ext else ''_page'');
                  icon = ''icon-'' @ (if isDir then ''folder'' else classForNonDir);
                  fsize = js_replace ''??k'' ''0B''
                            (if ext_link then ''-''
                             else sizeToString L (snd file) (humanReadable cfg) (si cfg))
              in Inr \<lparr>iconClass = icon, href = href2, external = ext_link,
                      displayName = shown, lastModified = lastModified, filesize = fsize\<rparr>))"

text \<open>The text \<^verbatim>\<open>writeRow\<close> appends to the page for a row (lines 136 to 147).\<close>

definition row_html :: "row \<Rightarrow> string" where
  "row_html r =
     ''<tr>'' @ ''<td><i class='' @ dq @ ''icon '' @ iconClass r @ dq @ ''></i></td>'' @
     (if external r
      then ''<td class='' @ dq @ ''display-name external'' @ dq @ ''><a href='' @ dq @ href r @ dq @
           '' target='' @ dq @ ''_blank'' @ dq @ ''>'' @ displayName r @ ''</a></td>''
      else ''<td class='' @ dq @ ''display-name'' @ dq @ ''><a href='' @ dq @ href r @ dq @ ''>'' @
           displayName r @ ''</a></td>'') @
     ''<td class='' @ dq @ ''modified'' @ dq @ ''><code>'' @ lastModified r @ ''</code></td>'' @
     ''<td class='' @ dq @ ''filesize'' @ dq @ ''><code>'' @ filesize r @ ''</code></td>'' @
     ''</tr>\<newline>''"

text \<open>\<^verbatim>\<open>bucket.forEach(writeRow)\<close>: the rows in order; an exception ends the loop.\<close>

fun forEach_writeRow :: "(entry \<Rightarrow> js_error + row) \<Rightarrow> entry list \<Rightarrow> js_error + row list" where
  "forEach_writeRow w [] = Inr []"
| "forEach_writeRow w (file # rest) =
     (case w file of
        Inl err \<Rightarrow> Inl err
      | Inr r \<Rightarrow>
          (case forEach_writeRow w rest of
             Inl err \<Rightarrow> Inl err
           | Inr rs \<Rightarrow> Inr (r # rs)))"

subsection \<open>Rendering the page\<close>

text \<open>
  Lines 150 to 152: each bucket is sorted, then written. \<^verbatim>\<open>Array.prototype.sort\<close> is
  stable, as \<open>sort_key\<close> is. The comparison function of \<^verbatim>\<open>dirs\<close> and of
  \<^verbatim>\<open>lolwuts\<close> compares the names \<^verbatim>\<open>a[0]\<close>, that of \<^verbatim>\<open>renderFiles\<close> the whole entries
  \<^verbatim>\<open>a.toString()\<close>.
\<close>

definition table_rows ::
  "('k::linorder) lib \<Rightarrow> opts \<Rightarrow> fsys \<Rightarrow> parsed_url \<Rightarrow> entry list \<Rightarrow> entry list \<Rightarrow> entry list \<Rightarrow>
   string \<Rightarrow> js_error + row list" where
  "table_rows L cfg F parsed dirs renderFiles lolwuts parent =
     (case forEach_writeRow (writeRow L cfg F parsed parent)
             (sort_key (\<lambda>a. collate L (fst a)) dirs) of
        Inl err \<Rightarrow> Inl err
      | Inr rows1 \<Rightarrow>
          (case forEach_writeRow (writeRow L cfg F parsed parent)
                  (sort_key (\<lambda>a. collate L (entry_toString a)) renderFiles) of
             Inl err \<Rightarrow> Inl err
           | Inr rows2 \<Rightarrow>
               (case forEach_writeRow (writeRow L cfg F parsed parent)
                       (sort_key (\<lambda>a. collate L (fst a)) lolwuts) of
                  Inl err \<Rightarrow> Inl err
                | Inr rows3 \<Rightarrow> Inr (rows1 @ rows2 @ rows3))))"

definition page_head :: "'k lib \<Rightarrow> string \<Rightarrow> string" where
  "page_head L decoded =
     join_with ''\<newline>''
       [''<!DOCTYPE html>'',
        ''<html lang='' @ dq @ ''en'' @ dq @ ''>'',
        ''  <head>'',
        ''    <meta charset='' @ dq @ ''utf-8'' @ dq @ ''>'',
        ''    <meta name='' @ dq @ ''robots'' @ dq @ '' content='' @ dq @ ''noindex, nofollow'' @ dq @ ''>'',
        ''    <meta name='' @ dq @ ''viewport'' @ dq @ '' content='' @ dq @ ''width=device-width'' @ dq @ ''>'',
        ''    <link rel='' @ dq @ ''stylesheet'' @ dq @ '' href='' @ dq @ ''/.theme/css/bootstrap.css'' @ dq @ ''>'',
        ''    <link rel='' @ dq @ ''stylesheet'' @ dq @ '' href='' @ dq @ ''/.theme/css/main.css'' @ dq @ ''>'',
        ''    <title>Index of '' @ he_encode L decoded @ ''</title>'',
        ''    <style type='' @ dq @ ''text/css'' @ dq @ ''>'' @ css L @ ''</style>'',
        ''  </head>'',
        ''  <body>'',
        ''<div class='' @ dq @ ''container'' @ dq @ ''>'',
        ''<h1>Index of '' @ he_encode L decoded @ ''</h1><hr>''] @ ''\<newline>''"

definition page_foot :: "'k lib \<Rightarrow> string \<Rightarrow> string" where
  "page_foot L h =
     (if ends_with ''you.rocks'' h
      then ''<br><address> Server deployed with <span class='' @ dq @ ''eceheart'' @ dq @
           ''>&hearts;</span> for YOU'' @ [CHR 0x27] @ ''21 at'' @
           '' '' @ he_encode L h @ ''</address>\<newline>'' @ ''</body></html>\<newline>''
      else ''<br><address>Node.js server '' @ ''running @ '' @ he_encode L h @
           ''</address>\<newline>'' @ ''</body></html>\<newline>'')"

text \<open>
  \<^verbatim>\<open>render\<close> (lines 76 to 177). Nothing is called on the response before the page is
  complete. \<^verbatim>\<open>req.headers.host.endsWith\<close> throws a TypeError when the request has no
  \<^verbatim>\<open>host\<close> header. \<^verbatim>\<open>failed\<close> is the constant \<^verbatim>\<open>false\<close>.
\<close>

definition render ::
  "('k::linorder) lib \<Rightarrow> opts \<Rightarrow> fsys \<Rightarrow> request \<Rightarrow> parsed_url \<Rightarrow> string \<Rightarrow>
   entry list \<Rightarrow> entry list \<Rightarrow> entry list \<Rightarrow> string \<Rightarrow> outcome" where
  "render L cfg F req parsed decoded dirs renderFiles lolwuts parent =
     (case table_rows L cfg F parsed dirs renderFiles lolwuts parent of
        Inl err \<Rightarrow> ([], Some err)
      | Inr rows \<Rightarrow>
          (let html = page_head L decoded @ ''<table>'' @ concat (map row_html rows) @
                      ''</table>\<newline>'' @ ''</div>\<newline>''
           in case host req of
                None \<Rightarrow> ([], Some TypeError)
              | Some h \<Rightarrow>
                  ([WriteHead 200 [(''Content-Type'', ''text/html'')], End (html @ page_foot L h)],
                   None)))"

subsection \<open>The middleware\<close>

text \<open>
  Modelled from the spec: \<^verbatim>\<open>sort-files.js\<close>, which \<^verbatim>\<open>index.js\<close> requires, is not among
  the sources. By section 4.3 of the specification it stats \<open>directoryPath/name\<close> for
  each name, appends the entry to the directories or to the files on success and to the
  unknowns on failure, and calls back once with (unknowns, dirs, files). The stats are
  taken here in the order of the names. An unknown's second component holds the error:
  an object without \<^verbatim>\<open>isDirectory\<close> and \<^verbatim>\<open>mtime\<close>, which is what the guard of
  \<^verbatim>\<open>writeRow\<close> on \<^verbatim>\<open>file[1].isDirectory\<close> provides for. A stat that throws (a name with
  a NUL byte, which no directory read returns) is not a failure of the specification:
  nothing catches the exception, and there is no callback.
\<close>

fun sortFiles ::
  "fsys \<Rightarrow> string \<Rightarrow> string list \<Rightarrow> js_error + entry list \<times> entry list \<times> entry list" where
  "sortFiles F dir [] = Inr ([], [], [])"
| "sortFiles F dir (name # names) =
     (case call_stat F (path_join [dir, name]) of
        Throws exn \<Rightarrow> Inl exn
      | Fails err \<Rightarrow>
          (case sortFiles F dir names of
             Inl exn \<Rightarrow> Inl exn
           | Inr (errs, dirs, files) \<Rightarrow> Inr ((name, ErrObj err) # errs, dirs, files))
      | Gives s \<Rightarrow>
          (case sortFiles F dir names of
             Inl exn \<Rightarrow> Inl exn
           | Inr (errs, dirs, files) \<Rightarrow>
               if isDirectory s then Inr (errs, (name, StatsObj s) # dirs, files)
               else Inr (errs, dirs, (name, StatsObj s) # files)))"

text \<open>Lines 66 to 69: \<^verbatim>\<open>files.filter(filename => filename.slice(0, 1) !== '.')\<close> unless
  dotfiles are shown.\<close>

definition filter_dotfiles :: "opts \<Rightarrow> string list \<Rightarrow> string list" where
  "filter_dotfiles cfg files =
     (if \<not> showDotfiles cfg then filter (\<lambda>filename. take 1 filename \<noteq> ''.'') files
      else files)"

text \<open>The error branch that follows each of the three file system calls:
  \<^verbatim>\<open>status[500](res, next, { error: err })\<close> when \<^verbatim>\<open>handleError\<close> is set, \<^verbatim>\<open>next()\<close>
  otherwise.\<close>

definition error_outcome :: "opts \<Rightarrow> js_error \<Rightarrow> event list" where
  "error_outcome cfg err = (if handleError cfg then [Status500 err] else [Next])"

text \<open>The callback given to \<^verbatim>\<open>sortFiles\<close> (lines 179 to 205): the parent entry, then
  the page.\<close>

definition on_sorted ::
  "('k::linorder) lib \<Rightarrow> opts \<Rightarrow> fsys \<Rightarrow> request \<Rightarrow> parsed_url \<Rightarrow> string \<Rightarrow> string \<Rightarrow>
   entry list \<Rightarrow> entry list \<Rightarrow> entry list \<Rightarrow> outcome" where
  "on_sorted L cfg F req parsed decoded dir lolwuts dirs sortedFiles =
     (let rootPath = path_resolve (cwd L) [root cfg]
      in if take (length rootPath) (path_resolve (cwd L) [dir, ''..'']) = rootPath then
           (case call_stat F (path_join [dir, ''..'']) of
              Throws exn \<Rightarrow> ([], Some exn)
            | Fails err \<Rightarrow> (error_outcome cfg err, None)
            | Gives s \<Rightarrow>
                render L cfg F req parsed decoded ((''..'', StatsObj s) # dirs) sortedFiles
                  lolwuts dir)
         else render L cfg F req parsed decoded dirs sortedFiles lolwuts dir)"

text \<open>The directory a request is for (lines 31 to 41), once its path is decoded.\<close>

definition target_dir :: "'k lib \<Rightarrow> opts \<Rightarrow> string \<Rightarrow> string" where
  "target_dir L cfg decoded =
     path_normalize
       (path_join [path_resolve (cwd L) [root cfg],
                   path_relative (cwd L) (path_join [''/'', baseDir cfg]) decoded])"

text \<open>The four headers set once the directory has been read (lines 71 to 74), before
  \<^verbatim>\<open>sortFiles\<close> is called.\<close>

definition listing_headers :: "'k lib \<Rightarrow> opts \<Rightarrow> stats \<Rightarrow> event list" where
  "listing_headers L cfg st =
     [SetHeader ''content-type'' ''text/html'',
      SetHeader ''etag'' (etag L st (weakEtags cfg)),
      SetHeader ''last-modified'' (toUTCString L (mtime st)),
      SetHeader ''cache-control'' (cache cfg)]"

definition middleware :: "('k::linorder) lib \<Rightarrow> opts \<Rightarrow> fsys \<Rightarrow> request \<Rightarrow> outcome" where
  "middleware L cfg F req =
     (let parsed = url_parse L (url req)
      in case decodeURIComponent L (pathname parsed) of
           Inl exn \<Rightarrow> ([], Some exn)
         | Inr decoded \<Rightarrow>
             (let dir = target_dir L cfg decoded
              in case call_stat F dir of
                   Throws exn \<Rightarrow> ([], Some exn)
                 | Fails statErr \<Rightarrow> (error_outcome cfg statErr, None)
                 | Gives st \<Rightarrow>
                     (case call_readdir F dir of
                        Throws exn \<Rightarrow> ([], Some exn)
                      | Fails readErr \<Rightarrow> (error_outcome cfg readErr, None)
                      | Gives allFiles \<Rightarrow>
                          (case sortFiles F dir (filter_dotfiles cfg allFiles) of
                             Inl exn \<Rightarrow> (listing_headers L cfg st, Some exn)
                           | Inr (lolwuts, dirs, sortedFiles) \<Rightarrow>
                               (case on_sorted L cfg F req parsed decoded dir lolwuts dirs
                                       sortedFiles of
                                  (calls, exn) \<Rightarrow> (listing_headers L cfg st @ calls, exn))))))"

subsection \<open>What a request produced\<close>

fun is_setHeader :: "event \<Rightarrow> bool" where
  "is_setHeader (SetHeader k v) = True"
| "is_setHeader _ = False"

text \<open>The calls that answer the request: all but \<^verbatim>\<open>setHeader\<close>.\<close>

definition answers :: "outcome \<Rightarrow> event list" where
  "answers out = filter (\<lambda>e. \<not> is_setHeader e) (fst out)"

text \<open>One HTML response: \<^verbatim>\<open>writeHead(200, ...)\<close>, then \<^verbatim>\<open>end(body)\<close>, and nothing else.\<close>

fun html_response :: "event list \<Rightarrow> bool" where
  "html_response [WriteHead st hs, End body] = (st = 200)"
| "html_response _ = False"

text \<open>One error outcome: the status handler alone when errors are handled, \<^verbatim>\<open>next()\<close>
  alone when they are not.\<close>

fun error_response :: "opts \<Rightarrow> event list \<Rightarrow> bool" where
  "error_response cfg [Status500 err] = handleError cfg"
| "error_response cfg [Next] = (\<not> handleError cfg)"
| "error_response cfg _ = False"

text \<open>The substring after the last dot of a name: the whole name when it has no dot.\<close>

definition after_last_dot :: "string \<Rightarrow> string" where
  "after_last_dot s = rev (takeWhile (\<lambda>c. c \<noteq> CHR ''.'') (rev s))"

text \<open>
  Modelled from the spec: the parent path "remains within the configured root". A
  resolved path lies within a resolved root when it is the root or a path below it: the
  root, then a slash (the root \<^verbatim>\<open>/\<close> ends in one), then the rest. The code tests less:
  that the root is a prefix of the path, as a string.
\<close>

definition within_root :: "string \<Rightarrow> string \<Rightarrow> bool" where
  "within_root r p = (p = r \<or> prefix (if r = ''/'' then r else r @ ''/'') p)"

definition starts_with_dot :: "string \<Rightarrow> bool" where
  "starts_with_dot s = (case s of [] \<Rightarrow> False | c # cs \<Rightarrow> c = CHR ''.'')"

subsection \<open>A library, a file system and requests to run the middleware on\<close>

text \<open>
  An instance of the libraries for the examples below: strings are compared by their
  character codes, \<^verbatim>\<open>url.parse\<close> cuts the URL at its first question mark, the URI
  functions handle the \<^verbatim>\<open>%XX\<close> escapes, \<^verbatim>\<open>he.encode\<close> escapes the six characters
  it considers unsafe in printable ASCII.
\<close>

definition hex_value :: "char \<Rightarrow> nat option" where
  "hex_value c =
     (let n = (of_char c :: nat)
      in if 48 \<le> n \<and> n \<le> 57 then Some (n - 48)
         else if 65 \<le> n \<and> n \<le> 70 then Some (n - 55)
         else if 97 \<le> n \<and> n \<le> 102 then Some (n - 87)
         else None)"

fun demo_decodeURIComponent :: "string \<Rightarrow> js_error + string" where
  "demo_decodeURIComponent [] = Inr []"
| "demo_decodeURIComponent (c # cs) =
     (if c = CHR ''%'' then
        (case cs of
           a # b # rest \<Rightarrow>
             (case (hex_value a, hex_value b) of
                (Some x, Some y) \<Rightarrow>
                  (case demo_decodeURIComponent rest of
                     Inl err \<Rightarrow> Inl err
                   | Inr t \<Rightarrow> Inr (char_of (16 * x + y) # t))
              | _ \<Rightarrow> Inl URIError)
         | _ \<Rightarrow> Inl URIError)
      else
        (case demo_decodeURIComponent cs of
           Inl err \<Rightarrow> Inl err
         | Inr t \<Rightarrow> Inr (c # t)))"

definition hex_digit :: "nat \<Rightarrow> char" where
  "hex_digit n = ''0123456789ABCDEF'' ! (n mod 16)"

definition is_unreserved :: "char \<Rightarrow> bool" where
  "is_unreserved c =
     (let n = (of_char c :: nat)
      in (48 \<le> n \<and> n \<le> 57) \<or> (65 \<le> n \<and> n \<le> 90) \<or> (97 \<le> n \<and> n \<le> 122) \<or>
         c \<in> set ''-_.!~*()'' \<or> n = 39)"

definition demo_encodeURIComponent :: "string \<Rightarrow> string" where
  "demo_encodeURIComponent s =
     concat (map (\<lambda>c. if is_unreserved c then [c]
                       else [CHR ''%'', hex_digit (of_char c div 16), hex_digit (of_char c)]) s)"

definition demo_he_encode :: "string \<Rightarrow> string" where
  "demo_he_encode s =
     concat (map (\<lambda>c. if c = CHR ''&'' then ''&#x26;''
                       else if c = CHR ''<'' then ''&#x3C;''
                       else if c = CHR ''>'' then ''&#x3E;''
                       else if c = CHR 0x22 then ''&#x22;''
                       else if c = CHR 0x27 then ''&#x27;''
                       else if c = CHR 0x60 then ''&#x60;''
                       else [c]) s)"

definition demo_url_parse :: "string \<Rightarrow> parsed_url" where
  "demo_url_parse u =
     \<lparr>pathname = takeWhile (\<lambda>c. c \<noteq> CHR ''?'') u,
      search = (case dropWhile (\<lambda>c. c \<noteq> CHR ''?'') u of [] \<Rightarrow> None | q \<Rightarrow> Some q)\<rparr>"

definition demo_lib :: "string lib" where
  "demo_lib =
     \<lparr>cwd = ''/home/node'',
      url_parse = demo_url_parse,
      decodeURIComponent = demo_decodeURIComponent,
      encodeURIComponent = demo_encodeURIComponent,
      he_encode = demo_he_encode,
      etag = (\<lambda>st weak. (if weak then ''W/'' else []) @ dq @ ''0-0-0'' @ dq),
      toUTCString = (\<lambda>d. case d of InvalidDate \<Rightarrow> ''Invalid Date''
                           | ValidDate f \<Rightarrow> iso_date f @ '' '' @ iso_time f @ '' GMT''),
      sizeToString = (\<lambda>slot human useSi. case slot of
                           StatsObj st \<Rightarrow> if isDirectory st then [] else pad_digits 4 (st_size st) @ ''B''
                         | ErrObj err \<Rightarrow> ''??k''),
      supportedIcons = (\<lambda>ext. ext \<in> {''png'', ''txt'', ''html''}),
      css = ''i.icon { display: block; }'',
      collate = (\<lambda>s. s)\<rparr>"

definition demo_opts :: opts where
  "demo_opts =
     \<lparr>cache = ''max-age=3600'', root = ''/srv'', baseDir = ''/'', humanReadable = True,
      hidePermissions = False, handleError = True, showDotfiles = False, si = False,
      weakEtags = True\<rparr>"

definition demo_date :: jsdate where
  "demo_date =
     ValidDate \<lparr>utcFullYear = 2021, utcMonth = 2, utcDate = 9, utcHours = 17, utcMinutes = 5,
                utcSeconds = 42, utcMilliseconds = 7\<rparr>"

definition dir_stats :: stats where
  "dir_stats = \<lparr>isDirectory = True, mtime = demo_date, st_size = 4096\<rparr>"

definition file_stats :: stats where
  "file_stats = \<lparr>isDirectory = False, mtime = demo_date, st_size = 20\<rparr>"

text \<open>
  The directory \<^verbatim>\<open>/srv\<close> holds a dotfile, a text file, a shortcut, a dangling link
  \<^verbatim>\<open>ghost\<close> and the directories \<^verbatim>\<open>a\<close> and \<^verbatim>\<open>broken\<close>; \<^verbatim>\<open>/srv/a\<close> holds four files;
  \<^verbatim>\<open>/srv/broken\<close> holds a shortcut that can be listed but not read.
\<close>

definition demo_fs :: fsys where
  "demo_fs =
     \<lparr>fs_stat = (\<lambda>p.
        if p \<in> {''/'', ''/srv'', ''/srv/a'', ''/srv/broken''} then Inr dir_stats
        else if p \<in> {''/srv/.env'', ''/srv/z.txt'', ''/srv/link.url'', ''/srv/a/b'',
                      ''/srv/a/b c'', ''/srv/a/png'', ''/srv/a/x.png'',
                      ''/srv/broken/gone.url''} then Inr file_stats
        else Inl (SystemError ''ENOENT'')),
      fs_readdir = (\<lambda>p.
        if p = ''/srv'' then Inr [''.env'', ''z.txt'', ''link.url'', ''ghost'', ''a'', ''broken'']
        else if p = ''/srv/a'' then Inr [''b'', ''x.png'', ''b c'', ''png'']
        else if p = ''/srv/broken'' then Inr [''gone.url'']
        else Inl (SystemError ''ENOTDIR'')),
      fs_readFileSync = (\<lambda>p.
        if p = ''/srv/link.url'' then Inr ''https://example.com\<newline>''
        else Inl (SystemError ''ENOENT''))\<rparr>"

text \<open>The same file system after \<open>gone\<close> has been removed: its stat fails.\<close>

definition fs_without :: "string \<Rightarrow> fsys" where
  "fs_without gone =
     demo_fs\<lparr>fs_stat := (\<lambda>p. if p = gone then Inl (SystemError ''ENOENT'') else fs_stat demo_fs p)\<rparr>"

text \<open>The same file system beside a directory \<^verbatim>\<open>/srvother\<close>.\<close>

definition fs_with_sibling :: fsys where
  "fs_with_sibling =
     demo_fs\<lparr>fs_stat := (\<lambda>p. if p = ''/srvother'' then Inr dir_stats else fs_stat demo_fs p)\<rparr>"

definition get :: "string \<Rightarrow> request" where
  "get u = \<lparr>url = u, host = Some ''localhost:8080''\<rparr>"

definition get_without_host :: "string \<Rightarrow> request" where
  "get_without_host u = \<lparr>url = u, host = None\<rparr>"

section \<open>Properties\<close>

subsection \<open>Strings and dates\<close>

lemma split_on_not_Nil: "split_on c s \<noteq> []"
  by (induction s) (auto split: list.splits)

lemma hd_split_on_append: "c \<notin> set a \<Longrightarrow> hd (split_on c (a @ c # rest)) = a"
  by (induction a) (auto split: list.splits simp: split_on_not_Nil)

lemma js_replace_char: "c \<notin> set a \<Longrightarrow> js_replace [c] rep (a @ c # b) = a @ rep @ b"
  by (induction a) auto

lemma digit_char_cases: "digit_char n \<in> set ''0123456789''"
proof -
  have "n mod 10 < length ''0123456789''" by simp
  then show ?thesis unfolding digit_char_def by (rule nth_mem)
qed

lemma digit_char_plain:
  "digit_char n \<noteq> CHR ''.''" "digit_char n \<noteq> CHR ''T''"
  "CHR ''.'' \<noteq> digit_char n" "CHR ''T'' \<noteq> digit_char n"
  using digit_char_cases[of n] by auto

lemma pad_digits_plain: "CHR ''.'' \<notin> set (pad_digits w n) \<and> CHR ''T'' \<notin> set (pad_digits w n)"
  by (auto simp: pad_digits_def digit_char_plain)

lemma iso_year_plain: "CHR ''.'' \<notin> set (iso_year y) \<and> CHR ''T'' \<notin> set (iso_year y)"
  by (simp add: iso_year_def pad_digits_plain)

lemma iso_date_plain: "CHR ''.'' \<notin> set (iso_date d) \<and> CHR ''T'' \<notin> set (iso_date d)"
  by (simp add: iso_date_def pad_digits_plain iso_year_plain)

lemma iso_time_plain: "CHR ''.'' \<notin> set (iso_time d)"
  by (simp add: iso_time_def pad_digits_plain)

lemma convertDateTime_valid:
  "convertDateTime (Some (ValidDate d)) = iso_date d @ '' '' @ iso_time d"
proof -
  have nodot: "CHR ''.'' \<notin> set (iso_date d @ ''T'' @ iso_time d)"
    by (simp add: iso_date_plain iso_time_plain)
  have noT: "CHR ''T'' \<notin> set (iso_date d)"
    by (simp add: iso_date_plain)
  have "hd (split_on CHR ''.'' ((iso_date d @ ''T'' @ iso_time d) @ CHR ''.'' # (pad_digits 3 (utcMilliseconds d) @ ''Z'')))
        = iso_date d @ ''T'' @ iso_time d"
    using nodot by (rule hd_split_on_append)
  moreover have "js_replace ''T'' '' '' (iso_date d @ CHR ''T'' # iso_time d) = iso_date d @ '' '' @ iso_time d"
    using noT by (rule js_replace_char)
  ultimately show ?thesis
    by (simp add: convertDateTime_def)
qed

lemma convertDateTime_throws:
  "toISOString dt = Inl err \<Longrightarrow>
   convertDateTime dt = ''&nbsp;&nbsp;&nbsp;&nbsp;&nbsp;&nbsp;&nbsp;&nbsp;&nbsp;-&nbsp;&nbsp;&nbsp;&nbsp;&nbsp;&nbsp;&nbsp;&nbsp;&nbsp;''"
  by (simp add: convertDateTime_def js_repeat_def eval_nat_numeral)

lemma pad_digits_2: "pad_digits 2 n = [digit_char (n div 10), digit_char n]"
  by (simp add: pad_digits_def numeral_2_eq_2)

lemma pad_digits_3:
  "pad_digits 3 n = [digit_char (n div 100), digit_char (n div 10), digit_char n]"
proof -
  have "[0..<3::nat] = [0, 1, 2]" by (simp add: upt_rec)
  then show ?thesis by (simp add: pad_digits_def)
qed

lemma pad_digits_4:
  "pad_digits 4 n = [digit_char (n div 1000), digit_char (n div 100), digit_char (n div 10), digit_char n]"
proof -
  have "[0..<4::nat] = [0, 1, 2, 3]" by (simp add: upt_rec)
  then show ?thesis by (simp add: pad_digits_def)
qed

lemma demo_date_iso:
  "iso_date \<lparr>utcFullYear = 2021, utcMonth = 2, utcDate = 9, utcHours = 17, utcMinutes = 5,
             utcSeconds = 42, utcMilliseconds = 7\<rparr> = ''2021-03-09''"
  "iso_time \<lparr>utcFullYear = 2021, utcMonth = 2, utcDate = 9, utcHours = 17, utcMinutes = 5,
             utcSeconds = 42, utcMilliseconds = 7\<rparr> = ''17:05:42''"
  by (simp_all add: iso_date_def iso_time_def iso_year_def pad_digits_2 pad_digits_4 digit_char_def)

subsection \<open>Trimming\<close>

text \<open>The white space of \<^verbatim>\<open>trim\<close>, by code points: the characters WhiteSpace and
  LineTerminator of ECMAScript.\<close>

lemma white_space_code_points:
  "white_space =
     map utf8 [0x09, 0x0A, 0x0B, 0x0C, 0x0D, 0x20, 0xA0, 0x1680,
               0x2000, 0x2001, 0x2002, 0x2003, 0x2004, 0x2005, 0x2006, 0x2007, 0x2008, 0x2009,
               0x200A, 0x2028, 0x2029, 0x202F, 0x205F, 0x3000, 0xFEFF]"
  by (simp add: white_space_def utf8_def char_of_def bit_0)

lemma strip_start_split:
  "\<exists>ws. set ws \<subseteq> set seqs \<and> s = concat ws @ strip_start seqs s"
proof (induction seqs s rule: strip_start.induct)
  case (1 seqs s)
  show ?case
  proof (cases "find (\<lambda>w. w \<noteq> [] \<and> take (length w) s = w) seqs")
    case None
    then have "strip_start seqs s = s" by (simp add: strip_start.simps)
    then have "set [] \<subseteq> set seqs \<and> s = concat [] @ strip_start seqs s" by simp
    then show ?thesis by blast
  next
    case (Some w)
    then have w: "w \<in> set seqs" "take (length w) s = w"
      by (auto simp: find_Some_iff)
    from 1[OF Some] obtain ws where ws: "set ws \<subseteq> set seqs"
      "drop (length w) s = concat ws @ strip_start seqs (drop (length w) s)" by blast
    have "strip_start seqs s = strip_start seqs (drop (length w) s)"
      using Some by (simp add: strip_start.simps[of seqs s])
    moreover have "s = w @ drop (length w) s"
      using w(2) by (metis append_take_drop_id)
    ultimately have "set (w # ws) \<subseteq> set seqs \<and> s = concat (w # ws) @ strip_start seqs s"
      using w(1) ws by (metis append.assoc concat.simps(2) insert_subset list.simps(15))
    then show ?thesis by blast
  qed
qed

lemma strip_start_done:
  "\<forall>w \<in> set seqs. w \<noteq> [] \<longrightarrow> \<not> prefix w (strip_start seqs s)"
proof (induction seqs s rule: strip_start.induct)
  case (1 seqs s)
  show ?case
  proof (cases "find (\<lambda>w. w \<noteq> [] \<and> take (length w) s = w) seqs")
    case None
    then have "strip_start seqs s = s" by (simp add: strip_start.simps)
    moreover have "\<not> prefix w s" if "w \<in> set seqs" "w \<noteq> []" for w
    proof
      assume "prefix w s"
      then have "take (length w) s = w" by (auto simp: prefix_def)
      with None that show False by (auto simp: find_None_iff)
    qed
    ultimately show ?thesis by simp
  next
    case (Some v)
    then have "strip_start seqs s = strip_start seqs (drop (length v) s)"
      by (simp add: strip_start.simps[of seqs s])
    with 1[OF Some] show ?thesis by simp
  qed
qed

text \<open>What \<open>js_trim\<close> leaves is the string without a run of white space at each end,
  and it neither starts nor ends with white space.\<close>

lemma js_trim_split:
  "\<exists>ws1 ws2. set ws1 \<subseteq> set white_space \<and> set ws2 \<subseteq> set white_space \<and>
     s = concat ws1 @ js_trim s @ concat ws2"
proof -
  obtain ws1 where 1: "set ws1 \<subseteq> set white_space"
      "s = concat ws1 @ strip_start white_space s"
    using strip_start_split by blast
  let ?t = "strip_start white_space s"
  obtain ws where 2: "set ws \<subseteq> set (map rev white_space)"
      "rev ?t = concat ws @ strip_start (map rev white_space) (rev ?t)"
    using strip_start_split by blast
  have "?t = rev (rev ?t)" by simp
  also have "\<dots> = js_trim s @ rev (concat ws)"
    by (subst 2(2)) (simp add: js_trim_def)
  also have "rev (concat ws) = concat (map rev (rev ws))"
    by (simp add: rev_concat)
  finally have t: "?t = js_trim s @ concat (map rev (rev ws))" .
  have "set (map rev (rev ws)) \<subseteq> set white_space"
    using 2(1) by auto
  with 1 t show ?thesis by metis
qed

lemma js_trim_ends:
  assumes "w \<in> set white_space"
  shows "\<not> prefix w (js_trim s) \<and> \<not> suffix w (js_trim s)"
proof
  have ne: "w \<noteq> []" using assms by (auto simp: white_space_def)
  let ?t = "strip_start white_space s"
  have "prefix (js_trim s) ?t"
  proof -
    obtain ws where "rev ?t = concat ws @ strip_start (map rev white_space) (rev ?t)"
      using strip_start_split by blast
    then have "rev (rev ?t) = js_trim s @ rev (concat ws)"
      by (metis js_trim_def rev_append)
    then show ?thesis by (simp add: prefix_def)
  qed
  moreover have "\<not> prefix w ?t"
    using strip_start_done assms ne by blast
  ultimately show "\<not> prefix w (js_trim s)"
    using prefix_order.trans by blast
next
  have ne: "rev w \<noteq> []" using assms by (auto simp: white_space_def)
  have "rev w \<in> set (map rev white_space)" using assms by simp
  then have "\<not> prefix (rev w) (strip_start (map rev white_space) (rev (strip_start white_space s)))"
    using strip_start_done ne by blast
  then show "\<not> suffix w (js_trim s)"
    by (simp add: js_trim_def suffix_to_prefix)
qed

lemma demo_link_trim:
  "js_trim ''https://example.com\<newline>'' = ''https://example.com''"
  "js_trim ([CHR 0xEF, CHR 0xBB, CHR 0xBF] @ '' https://example.com'' @ [CHR 0xC2, CHR 0xA0] @
            ''\<newline>'') = ''https://example.com''"
  by (simp_all add: js_trim_def strip_start.simps white_space_def)

subsection \<open>Calls of the file system\<close>

lemma call_stat_plain:
  "\<not> has_nul p \<Longrightarrow>
   call_stat F p = (case fs_stat F p of Inl err \<Rightarrow> Fails err | Inr st \<Rightarrow> Gives st)"
  "has_nul p \<Longrightarrow> call_stat F p = Throws TypeError"
  by (simp_all add: call_stat_def)

lemma call_readdir_plain:
  "\<not> has_nul p \<Longrightarrow>
   call_readdir F p = (case fs_readdir F p of Inl err \<Rightarrow> Fails err | Inr names \<Rightarrow> Gives names)"
  by (simp add: call_readdir_def)

lemma call_readFileSync_plain:
  "\<not> has_nul p \<Longrightarrow> call_readFileSync F p = fs_readFileSync F p"
  by (simp add: call_readFileSync_def)

lemma call_stat_no_nul: "call_stat F p = Gives st \<Longrightarrow> \<not> has_nul p"
  "call_stat F p = Fails err \<Longrightarrow> \<not> has_nul p"
  by (auto simp: call_stat_def split: if_splits)

subsection \<open>Rows\<close>

lemma writeRow_shortcut:
  assumes "\<not> slot_isDir (snd file)" and "ends_with ''.url'' (fst file)"
  shows "writeRow L cfg F parsed parent file =
    (case call_readFileSync F (path_resolve (cwd L) [parent, fst file]) of
       Inl err \<Rightarrow> Inl err
     | Inr content \<Rightarrow>
         Inr \<lparr>iconClass = ''icon-'' @
                  (if supportedIcons L (last (split_on CHR ''.'' (take (length (fst file) - 4) (fst file))))
                   then last (split_on CHR ''.'' (take (length (fst file) - 4) (fst file)))
                   else ''_page''),
              href = js_trim content, external = True,
              displayName = he_encode L (take (length (fst file) - 4) (fst file)),
              lastModified = convertDateTime (slot_mtime (snd file)),
              filesize = ''-''\<rparr>)"
  using assms by (simp add: writeRow_def Let_def split: sum.splits)

lemma writeRow_plain:
  assumes "slot_isDir (snd file) \<or> \<not> ends_with ''.url'' (fst file)"
  shows "writeRow L cfg F parsed parent file =
     Inr \<lparr>iconClass = ''icon-'' @
              (if slot_isDir (snd file) then ''folder''
               else if supportedIcons L (last (split_on CHR ''.'' (fst file)))
                    then last (split_on CHR ''.'' (fst file)) else ''_page''),
          href = strip_trailing_slash (pathname parsed) @ ''/'' @ encodeURIComponent L (fst file) @
                 (if slot_isDir (snd file)
                  then ''/'' @ he_encode L (case search parsed of None \<Rightarrow> [] | Some q \<Rightarrow> q)
                  else []),
          external = False,
          displayName = he_encode L (fst file) @ (if slot_isDir (snd file) then ''/'' else []),
          lastModified = convertDateTime (slot_mtime (snd file)),
          filesize = js_replace ''??k'' ''0B'' (sizeToString L (snd file) (humanReadable cfg) (si cfg))\<rparr>"
  using assms by (auto simp add: writeRow_def Let_def)

lemma writeRow_lastModified:
  assumes "writeRow L cfg F parsed parent file = Inr r"
  shows "lastModified r = convertDateTime (slot_mtime (snd file))"
proof (cases "\<not> slot_isDir (snd file) \<and> ends_with ''.url'' (fst file)")
  case True
  then show ?thesis using assms by (auto simp: writeRow_shortcut split: sum.splits)
next
  case False
  then have "slot_isDir (snd file) \<or> \<not> ends_with ''.url'' (fst file)" by simp
  from writeRow_plain[OF this, of L cfg F parsed parent] assms show ?thesis by auto
qed

text \<open>
  C7. The last-modified cell of a row: for an entry whose \<^verbatim>\<open>mtime\<close> is a valid date, the
  ISO string is the date, \<^verbatim>\<open>T\<close>, the time, a dot, the milliseconds and \<^verbatim>\<open>Z\<close>, and the
  cell is the date, a space and the time; for an entry without \<^verbatim>\<open>mtime\<close> or with an
  invalid date the conversion throws and the cell is nine \<^verbatim>\<open>&nbsp;\<close>, a dash and nine
  \<^verbatim>\<open>&nbsp;\<close>.
\<close>

theorem lastModified_cell:
  assumes "writeRow L cfg F parsed parent file = Inr r"
  shows "(case slot_mtime (snd file) of
            Some (ValidDate d) \<Rightarrow>
              toISOString (slot_mtime (snd file)) =
                Inr (iso_date d @ ''T'' @ iso_time d @ ''.'' @
                     pad_digits 3 (utcMilliseconds d) @ ''Z'') \<and>
              lastModified r = iso_date d @ '' '' @ iso_time d
          | _ \<Rightarrow>
              (\<exists>err. toISOString (slot_mtime (snd file)) = Inl err) \<and>
              lastModified r =
                ''&nbsp;&nbsp;&nbsp;&nbsp;&nbsp;&nbsp;&nbsp;&nbsp;&nbsp;-&nbsp;&nbsp;&nbsp;&nbsp;&nbsp;&nbsp;&nbsp;&nbsp;&nbsp;'')"
proof (cases "slot_mtime (snd file)" rule: toISOString.cases)
  case 1
  then have "toISOString (slot_mtime (snd file)) = Inl TypeError" by simp
  from convertDateTime_throws[OF this] 1 show ?thesis
    using writeRow_lastModified[OF assms] by simp
next
  case 2
  then have "toISOString (slot_mtime (snd file)) = Inl RangeError" by simp
  from convertDateTime_throws[OF this] 2 show ?thesis
    using writeRow_lastModified[OF assms] by simp
next
  case (3 d)
  then show ?thesis
    using writeRow_lastModified[OF assms] convertDateTime_valid[of d] by simp
qed

theorem lastModified_cell_witness:
  "(\<exists>r. writeRow demo_lib demo_opts demo_fs (demo_url_parse ''/'') ''/srv''
           (''z.txt'', StatsObj file_stats) = Inr r \<and>
        lastModified r = ''2021-03-09 17:05:42'') \<and>
   (\<exists>r. writeRow demo_lib demo_opts demo_fs (demo_url_parse ''/'') ''/srv''
           (''ghost'', ErrObj (SystemError ''ENOENT'')) = Inr r \<and>
        lastModified r =
          ''&nbsp;&nbsp;&nbsp;&nbsp;&nbsp;&nbsp;&nbsp;&nbsp;&nbsp;-&nbsp;&nbsp;&nbsp;&nbsp;&nbsp;&nbsp;&nbsp;&nbsp;&nbsp;'')"
proof (intro conjI)
  obtain r where r: "writeRow demo_lib demo_opts demo_fs (demo_url_parse ''/'') ''/srv''
           (''z.txt'', StatsObj file_stats) = Inr r"
    by (simp add: writeRow_plain ends_with_def)
  from lastModified_cell[OF r] r
  show "\<exists>r. writeRow demo_lib demo_opts demo_fs (demo_url_parse ''/'') ''/srv''
           (''z.txt'', StatsObj file_stats) = Inr r \<and>
        lastModified r = ''2021-03-09 17:05:42''"
    by (simp add: file_stats_def demo_date_def demo_date_iso)
next
  obtain r where r: "writeRow demo_lib demo_opts demo_fs (demo_url_parse ''/'') ''/srv''
           (''ghost'', ErrObj (SystemError ''ENOENT'')) = Inr r"
    by (simp add: writeRow_plain ends_with_def)
  from lastModified_cell[OF r] r
  show "\<exists>r. writeRow demo_lib demo_opts demo_fs (demo_url_parse ''/'') ''/srv''
           (''ghost'', ErrObj (SystemError ''ENOENT'')) = Inr r \<and>
        lastModified r =
          ''&nbsp;&nbsp;&nbsp;&nbsp;&nbsp;&nbsp;&nbsp;&nbsp;&nbsp;-&nbsp;&nbsp;&nbsp;&nbsp;&nbsp;&nbsp;&nbsp;&nbsp;&nbsp;''"
    by simp
qed

lemma split_on_without: "c \<notin> set s \<Longrightarrow> split_on c s = [s]"
  by (induction s) auto

lemma split_on_append: "split_on c (a @ c # e) = split_on c a @ split_on c e"
  by (induction a) (auto split: list.splits simp: split_on_not_Nil)

lemma last_split_on: "last (split_on CHR ''.'' s) = after_last_dot s"
proof (cases "CHR ''.'' \<in> set s")
  case False
  then have "takeWhile (\<lambda>c. c \<noteq> CHR ''.'') (rev s) = rev s"
    by (auto simp: takeWhile_eq_all_conv)
  then have "after_last_dot s = s"
    unfolding after_last_dot_def by (simp only: rev_rev_ident)
  with False show ?thesis
    by (simp add: split_on_without)
next
  case True
  then obtain a e where s: "s = a @ CHR ''.'' # e" and e: "CHR ''.'' \<notin> set e"
    by (auto dest: split_list_last)
  have "takeWhile (\<lambda>c. c \<noteq> CHR ''.'') (rev e @ CHR ''.'' # rev a) = rev e"
  proof -
    have "\<forall>x \<in> set (rev e). x \<noteq> CHR ''.''"
      using e by auto
    then have "takeWhile (\<lambda>c. c \<noteq> CHR ''.'') (rev e @ CHR ''.'' # rev a) =
               rev e @ takeWhile (\<lambda>c. c \<noteq> CHR ''.'') (CHR ''.'' # rev a)"
      by (intro takeWhile_append2) auto
    then show ?thesis by simp
  qed
  then have "after_last_dot s = e"
    by (simp add: after_last_dot_def s)
  moreover have "last (split_on CHR ''.'' s) = e"
    using e by (simp add: s split_on_append split_on_not_Nil split_on_without)
  ultimately show ?thesis by simp
qed

lemma after_last_dot_without: "CHR ''.'' \<notin> set s \<Longrightarrow> after_last_dot s = s"
  using last_split_on[of s] by (simp add: split_on_without)

lemma ends_with_url: "ends_with ''.url'' s \<Longrightarrow> take (length s - 4) s @ ''.url'' = s"
proof -
  assume "ends_with ''.url'' s"
  moreover have "length ''.url'' = 4"
    by simp
  ultimately have "drop (length s - 4) s = ''.url''"
    unfolding ends_with_def by metis
  then show ?thesis
    using append_take_drop_id[of "length s - 4" s] by simp
qed

lemma demo_lib_sel:
  "cwd demo_lib = ''/home/node''"
  "he_encode demo_lib = demo_he_encode"
  "encodeURIComponent demo_lib = demo_encodeURIComponent"
  "supportedIcons demo_lib = (\<lambda>ext. ext \<in> {''png'', ''txt'', ''html''})"
  "collate demo_lib = (\<lambda>s. s)"
  "url_parse demo_lib = demo_url_parse"
  "decodeURIComponent demo_lib = demo_decodeURIComponent"
  by (simp_all add: demo_lib_def)

text \<open>
  C10. The icon class of a row: a directory gets the folder icon; any other entry gets
  the icon of the substring after the last dot of its name (the name cut by four
  characters for a shortcut) when the style table has that key, the page icon otherwise.
  A name without a dot is its own extension, so a file named \<^verbatim>\<open>png\<close> gets the icon of
  \<^verbatim>\<open>png\<close> files.
\<close>

theorem icon_class:
  assumes "writeRow L cfg F parsed parent file = Inr r"
  shows "iconClass r =
           (if slot_isDir (snd file) then ''icon-folder''
            else
              (let name = (if ends_with ''.url'' (fst file)
                           then take (length (fst file) - 4) (fst file) else fst file);
                   ext = after_last_dot name
               in if supportedIcons L ext then ''icon-'' @ ext else ''icon-_page'')) \<and>
         (\<forall>name. CHR ''.'' \<notin> set name \<longrightarrow> after_last_dot name = name)"
proof (cases "\<not> slot_isDir (snd file) \<and> ends_with ''.url'' (fst file)")
  case True
  then show ?thesis
    using assms
    by (auto simp: writeRow_shortcut last_split_on after_last_dot_without split: sum.splits)
next
  case False
  then have "slot_isDir (snd file) \<or> \<not> ends_with ''.url'' (fst file)" by simp
  from writeRow_plain[OF this, of L cfg F parsed parent] assms False show ?thesis
    by (auto simp: last_split_on after_last_dot_without)
qed

theorem icon_class_witness:
  "(\<exists>r. writeRow demo_lib demo_opts demo_fs (demo_url_parse ''/a/'') ''/srv/a''
           (''png'', StatsObj file_stats) = Inr r \<and> iconClass r = ''icon-png'') \<and>
   (\<exists>r. writeRow demo_lib demo_opts demo_fs (demo_url_parse ''/a/'') ''/srv/a''
           (''b'', StatsObj file_stats) = Inr r \<and> iconClass r = ''icon-_page'') \<and>
   (\<exists>r. writeRow demo_lib demo_opts demo_fs (demo_url_parse ''/'') ''/srv''
           (''a'', StatsObj dir_stats) = Inr r \<and> iconClass r = ''icon-folder'')"
proof (intro conjI)
  obtain r where r: "writeRow demo_lib demo_opts demo_fs (demo_url_parse ''/a/'') ''/srv/a''
           (''png'', StatsObj file_stats) = Inr r"
    by (simp add: writeRow_plain ends_with_def)
  from icon_class[OF r] r
  show "\<exists>r. writeRow demo_lib demo_opts demo_fs (demo_url_parse ''/a/'') ''/srv/a''
           (''png'', StatsObj file_stats) = Inr r \<and> iconClass r = ''icon-png''"
    by (simp add: file_stats_def ends_with_def demo_lib_sel)
next
  obtain r where r: "writeRow demo_lib demo_opts demo_fs (demo_url_parse ''/a/'') ''/srv/a''
           (''b'', StatsObj file_stats) = Inr r"
    by (simp add: writeRow_plain ends_with_def)
  from icon_class[OF r] r
  show "\<exists>r. writeRow demo_lib demo_opts demo_fs (demo_url_parse ''/a/'') ''/srv/a''
           (''b'', StatsObj file_stats) = Inr r \<and> iconClass r = ''icon-_page''"
    by (simp add: file_stats_def ends_with_def demo_lib_sel)
next
  obtain r where r: "writeRow demo_lib demo_opts demo_fs (demo_url_parse ''/'') ''/srv''
           (''a'', StatsObj dir_stats) = Inr r"
    by (simp add: writeRow_plain dir_stats_def)
  from icon_class[OF r] r
  show "\<exists>r. writeRow demo_lib demo_opts demo_fs (demo_url_parse ''/'') ''/srv''
           (''a'', StatsObj dir_stats) = Inr r \<and> iconClass r = ''icon-folder''"
    by (simp add: dir_stats_def)
qed

lemma demo_link_path: "path_resolve ''/home/node'' [''/srv'', ''link.url''] = ''/srv/link.url''"
  by (simp add: path_resolve_def normalizeString_def Let_def)

lemma demo_link_read:
  "call_readFileSync demo_fs (path_resolve (cwd demo_lib) [''/srv'', ''link.url'']) =
     Inr ''https://example.com\<newline>''"
  by (simp add: demo_lib_sel demo_link_path call_readFileSync_def has_nul_def demo_fs_def)

text \<open>
  C5. A shortcut: for an entry that is not a directory and whose name ends in
  \<^verbatim>\<open>.url\<close>, once the file is read, the row's link is the trimmed content of the file
  (the content without the white space at its start and at its end), the name shown is
  the HTML-escaped name without its last four characters, the row is external (the link
  opens a new tab) and its size cell is a dash.
\<close>

theorem shortcut_row:
  assumes "\<not> slot_isDir (snd file)"
    and "ends_with ''.url'' (fst file)"
    and "call_readFileSync F (path_resolve (cwd L) [parent, fst file]) = Inr content"
  shows "\<exists>r. writeRow L cfg F parsed parent file = Inr r \<and>
             href r = js_trim content \<and>
             (\<exists>ws1 ws2. set ws1 \<subseteq> set white_space \<and> set ws2 \<subseteq> set white_space \<and>
                        content = concat ws1 @ href r @ concat ws2) \<and>
             (\<forall>w \<in> set white_space. \<not> prefix w (href r) \<and> \<not> suffix w (href r)) \<and>
             displayName r = he_encode L (take (length (fst file) - 4) (fst file)) \<and>
             take (length (fst file) - 4) (fst file) @ ''.url'' = fst file \<and>
             external r \<and>
             filesize r = ''-'' \<and>
             row_html r =
               ''<tr><td><i class='' @ dq @ ''icon '' @ iconClass r @ dq @ ''></i></td>'' @
               ''<td class='' @ dq @ ''display-name external'' @ dq @ ''><a href='' @ dq @
               js_trim content @ dq @ '' target='' @ dq @ ''_blank'' @ dq @ ''>'' @
               he_encode L (take (length (fst file) - 4) (fst file)) @ ''</a></td>'' @
               ''<td class='' @ dq @ ''modified'' @ dq @ ''><code>'' @ lastModified r @
               ''</code></td>'' @
               ''<td class='' @ dq @ ''filesize'' @ dq @ ''><code>-</code></td></tr>\<newline>''"
proof -
  obtain r where r: "writeRow L cfg F parsed parent file = Inr r" and h: "href r = js_trim content"
    and rest: "displayName r = he_encode L (take (length (fst file) - 4) (fst file))"
      "external r" "filesize r = ''-''"
    using assms by (simp add: writeRow_shortcut)
  have html: "row_html r =
               ''<tr><td><i class='' @ dq @ ''icon '' @ iconClass r @ dq @ ''></i></td>'' @
               ''<td class='' @ dq @ ''display-name external'' @ dq @ ''><a href='' @ dq @
               js_trim content @ dq @ '' target='' @ dq @ ''_blank'' @ dq @ ''>'' @
               he_encode L (take (length (fst file) - 4) (fst file)) @ ''</a></td>'' @
               ''<td class='' @ dq @ ''modified'' @ dq @ ''><code>'' @ lastModified r @
               ''</code></td>'' @
               ''<td class='' @ dq @ ''filesize'' @ dq @ ''><code>-</code></td></tr>\<newline>''"
    using h rest by (simp add: row_html_def)
  have split: "\<exists>ws1 ws2. set ws1 \<subseteq> set white_space \<and> set ws2 \<subseteq> set white_space \<and>
                        content = concat ws1 @ href r @ concat ws2"
    unfolding h by (rule js_trim_split)
  have ends: "\<forall>w \<in> set white_space. \<not> prefix w (href r) \<and> \<not> suffix w (href r)"
    unfolding h using js_trim_ends by blast
  from r h split ends rest ends_with_url[OF assms(2)] html show ?thesis
    by blast
qed

theorem shortcut_row_witness:
  "(\<exists>r. writeRow demo_lib demo_opts demo_fs (demo_url_parse ''/'') ''/srv''
           (''link.url'', StatsObj file_stats) = Inr r \<and>
        href r = ''https://example.com'' \<and> displayName r = ''link'' \<and> external r \<and>
        filesize r = ''-'') \<and>
   (\<exists>r. writeRow demo_lib demo_opts
           (demo_fs\<lparr>fs_readFileSync := (\<lambda>p. Inr ([CHR 0xEF, CHR 0xBB, CHR 0xBF] @
              '' https://example.com'' @ [CHR 0xC2, CHR 0xA0] @ ''\<newline>''))\<rparr>)
           (demo_url_parse ''/'') ''/srv'' (''link.url'', StatsObj file_stats) = Inr r \<and>
        href r = ''https://example.com'')"
proof (intro conjI)
  have 1: "\<not> slot_isDir (snd (''link.url'', StatsObj file_stats))"
    by (simp add: file_stats_def)
  have 2: "ends_with ''.url'' (fst (''link.url'', StatsObj file_stats))"
    by (simp add: ends_with_def)
  have 3: "call_readFileSync demo_fs
             (path_resolve (cwd demo_lib) [''/srv'', fst (''link.url'', StatsObj file_stats)]) =
           Inr ''https://example.com\<newline>''"
    using demo_link_read by simp
  from shortcut_row[OF 1 2 3, of demo_opts "demo_url_parse ''/''"]
  show "\<exists>r. writeRow demo_lib demo_opts demo_fs (demo_url_parse ''/'') ''/srv''
           (''link.url'', StatsObj file_stats) = Inr r \<and>
        href r = ''https://example.com'' \<and> displayName r = ''link'' \<and> external r \<and>
        filesize r = ''-''"
    by (auto simp: demo_link_trim demo_lib_sel demo_he_encode_def)
next
  let ?F = "demo_fs\<lparr>fs_readFileSync := (\<lambda>p. Inr ([CHR 0xEF, CHR 0xBB, CHR 0xBF] @
              '' https://example.com'' @ [CHR 0xC2, CHR 0xA0] @ ''\<newline>''))\<rparr>"
  have 1: "\<not> slot_isDir (snd (''link.url'', StatsObj file_stats))"
    by (simp add: file_stats_def)
  have 2: "ends_with ''.url'' (fst (''link.url'', StatsObj file_stats))"
    by (simp add: ends_with_def)
  have 3: "call_readFileSync ?F
             (path_resolve (cwd demo_lib) [''/srv'', fst (''link.url'', StatsObj file_stats)]) =
           Inr ([CHR 0xEF, CHR 0xBB, CHR 0xBF] @ '' https://example.com'' @ [CHR 0xC2, CHR 0xA0] @
                ''\<newline>'')"
    by (simp add: demo_lib_sel demo_link_path call_readFileSync_def has_nul_def)
  from shortcut_row[OF 1 2 3, of demo_opts "demo_url_parse ''/''"]
  show "\<exists>r. writeRow demo_lib demo_opts ?F (demo_url_parse ''/'') ''/srv''
           (''link.url'', StatsObj file_stats) = Inr r \<and> href r = ''https://example.com''"
    using demo_link_trim(2) by auto
qed

subsection \<open>Dotfiles\<close>

lemma take_1_dot: "(take (Suc 0) name \<noteq> ''.'') = (\<not> starts_with_dot name)"
  by (cases name) (auto simp: starts_with_dot_def)

text \<open>What the directory read returns bears on the request through the list of names
  only.\<close>

lemma call_stat_readdir: "call_stat (F\<lparr>fs_readdir := g\<rparr>) = call_stat F"
  by (rule ext) (simp add: call_stat_def)

lemma call_readFileSync_readdir: "call_readFileSync (F\<lparr>fs_readdir := g\<rparr>) = call_readFileSync F"
  by (rule ext) (simp add: call_readFileSync_def)

lemma sortFiles_readdir:
  "sortFiles (F\<lparr>fs_readdir := g\<rparr>) dir names = sortFiles F dir names"
  by (induction names) (simp_all add: call_stat_readdir split: fs_result.splits)

lemma writeRow_readdir:
  "writeRow L cfg (F\<lparr>fs_readdir := g\<rparr>) parsed parent = writeRow L cfg F parsed parent"
  by (rule ext) (simp add: writeRow_def Let_def call_readFileSync_readdir)

lemma table_rows_readdir:
  "table_rows L cfg (F\<lparr>fs_readdir := g\<rparr>) parsed dirs renderFiles lolwuts parent =
   table_rows L cfg F parsed dirs renderFiles lolwuts parent"
  unfolding table_rows_def writeRow_readdir by (rule refl)

lemma render_readdir:
  "render L cfg (F\<lparr>fs_readdir := g\<rparr>) req parsed decoded dirs renderFiles lolwuts parent =
   render L cfg F req parsed decoded dirs renderFiles lolwuts parent"
  unfolding render_def table_rows_readdir by (rule refl)

lemma on_sorted_readdir:
  "on_sorted L cfg (F\<lparr>fs_readdir := g\<rparr>) req parsed decoded dir lolwuts dirs sortedFiles =
   on_sorted L cfg F req parsed decoded dir lolwuts dirs sortedFiles"
  unfolding on_sorted_def render_readdir call_stat_readdir by (rule refl)

lemma call_readdir_filtered:
  "call_readdir (F\<lparr>fs_readdir := (\<lambda>p. case fs_readdir F p of
                                       Inl err \<Rightarrow> Inl err
                                     | Inr names \<Rightarrow> Inr (filter P names))\<rparr>) dir =
   (case call_readdir F dir of
      Throws exn \<Rightarrow> Throws exn
    | Fails err \<Rightarrow> Fails err
    | Gives names \<Rightarrow> Gives (filter P names))"
  by (simp add: call_readdir_def split: sum.splits)

text \<open>
  C6. Dotfiles: when \<^verbatim>\<open>showDotfiles\<close> is off, the names that start with a dot are taken out
  of what the directory read returned, and the request is answered as if the directory
  did not hold them; when it is on, every name is kept.
\<close>

theorem dotfiles_filtered:
  "filter_dotfiles cfg files =
     (if showDotfiles cfg then files else filter (\<lambda>name. \<not> starts_with_dot name) files) \<and>
   middleware L cfg F req =
     (if showDotfiles cfg then middleware L cfg F req
      else middleware L cfg
             (F\<lparr>fs_readdir := (\<lambda>p. case fs_readdir F p of
                                       Inl err \<Rightarrow> Inl err
                                     | Inr names \<Rightarrow>
                                         Inr (filter (\<lambda>name. \<not> starts_with_dot name) names))\<rparr>)
             req)"
proof
  show "filter_dotfiles cfg files =
     (if showDotfiles cfg then files else filter (\<lambda>name. \<not> starts_with_dot name) files)"
    by (simp add: filter_dotfiles_def take_1_dot)
next
  let ?F = "F\<lparr>fs_readdir := (\<lambda>p. case fs_readdir F p of
                                       Inl err \<Rightarrow> Inl err
                                     | Inr names \<Rightarrow>
                                         Inr (filter (\<lambda>name. \<not> starts_with_dot name) names))\<rparr>"
  have "middleware L cfg F req = middleware L cfg ?F req" if off: "\<not> showDotfiles cfg"
  proof -
    have eq: "filter_dotfiles cfg (filter (\<lambda>name. \<not> starts_with_dot name) names) =
              filter_dotfiles cfg names" for names
      using off by (simp add: filter_dotfiles_def take_1_dot)
    show ?thesis
      unfolding middleware_def Let_def call_stat_readdir sortFiles_readdir on_sorted_readdir
        call_readdir_filtered
      by (simp add: eq split: sum.splits fs_result.splits)
  qed
  then show "middleware L cfg F req =
     (if showDotfiles cfg then middleware L cfg F req
      else middleware L cfg
             (F\<lparr>fs_readdir := (\<lambda>p. case fs_readdir F p of
                                       Inl err \<Rightarrow> Inl err
                                     | Inr names \<Rightarrow>
                                         Inr (filter (\<lambda>name. \<not> starts_with_dot name) names))\<rparr>)
             req)"
    by simp
qed

theorem dotfiles_filtered_witness:
  "filter_dotfiles demo_opts [''.env'', ''a.txt''] = [''a.txt''] \<and>
   filter_dotfiles (demo_opts\<lparr>showDotfiles := True\<rparr>) [''.env'', ''a.txt''] = [''.env'', ''a.txt'']"
  using dotfiles_filtered[of demo_opts "[''.env'', ''a.txt'']" demo_lib demo_fs "get ''/''"]
    dotfiles_filtered[of "demo_opts\<lparr>showDotfiles := True\<rparr>" "[''.env'', ''a.txt'']" demo_lib demo_fs "get ''/''"]
  by (simp add: demo_opts_def starts_with_dot_def)

subsection \<open>The parent entry\<close>

lemma take_is_root: "(take (length r) p = r) = prefix r p"
  by (metis append_eq_conv_conj prefix_def)

lemma within_root_prefix: "within_root r p \<Longrightarrow> prefix r p"
  by (auto simp: within_root_def prefix_def split: if_splits)

lemma demo_paths:
  "path_resolve ''/home/node'' [''/srv''] = ''/srv''"
  "path_resolve ''/home/node'' [''/srv/a'', ''..''] = ''/srv''"
  "path_resolve ''/home/node'' [''/srv'', ''..''] = ''/''"
  "path_resolve ''/home/node'' [''/srvother/x'', ''..''] = ''/srvother''"
  "path_join [''/srv/a'', ''..''] = ''/srv''"
  "path_join [''/srv'', ''..''] = ''/''"
  "path_join [''/srvother/x'', ''..''] = ''/srvother''"
  by (simp_all add: path_resolve_def path_join_def path_normalize_def normalizeString_def Let_def)

lemma demo_opts_sel:
  "root demo_opts = ''/srv''" "baseDir demo_opts = ''/''" "handleError demo_opts"
  "\<not> showDotfiles demo_opts" "cache demo_opts = ''max-age=3600''" "weakEtags demo_opts"
  "humanReadable demo_opts" "\<not> si demo_opts"
  by (simp_all add: demo_opts_def)

lemma demo_parent_stats:
  "call_stat demo_fs ''/srv'' = Gives dir_stats"
  "call_stat (fs_without ''/srv'') ''/srv'' = Fails (SystemError ''ENOENT'')"
  "call_stat fs_with_sibling ''/srvother'' = Gives dir_stats"
  by (simp_all add: call_stat_def has_nul_def demo_fs_def fs_without_def fs_with_sibling_def)

text \<open>
  C2. The parent entry. When the resolved parent of the listed directory is the resolved
  root or lies below it, the parent is stat'ed: \<^verbatim>\<open>['..', stat]\<close> is put in front of the
  directories and the page is rendered when the stat succeeds, and the request ends
  with the error outcome, without the entry, when it fails. When the resolved root is
  not a prefix of the resolved parent, the page is rendered without the entry. With
  root \<^verbatim>\<open>/srv\<close>, the listing of \<^verbatim>\<open>/srv/a\<close> gets the entry, with the stat of \<^verbatim>\<open>/srv\<close>,
  and the listing of \<^verbatim>\<open>/srv\<close> does not.
\<close>

theorem parent_entry:
  "(within_root (path_resolve (cwd L) [root cfg]) (path_resolve (cwd L) [dir, ''..'']) \<longrightarrow>
      on_sorted L cfg F req parsed decoded dir lolwuts dirs sortedFiles =
        (case call_stat F (path_join [dir, ''..'']) of
           Throws exn \<Rightarrow> ([], Some exn)
         | Fails err \<Rightarrow> (error_outcome cfg err, None)
         | Gives s \<Rightarrow>
             render L cfg F req parsed decoded ((''..'', StatsObj s) # dirs) sortedFiles
               lolwuts dir)) \<and>
   (\<not> prefix (path_resolve (cwd L) [root cfg]) (path_resolve (cwd L) [dir, ''..'']) \<longrightarrow>
      on_sorted L cfg F req parsed decoded dir lolwuts dirs sortedFiles =
        render L cfg F req parsed decoded dirs sortedFiles lolwuts dir)"
  using within_root_prefix[of "path_resolve (cwd L) [root cfg]" "path_resolve (cwd L) [dir, ''..'']"]
  by (auto simp: on_sorted_def Let_def take_is_root)

theorem parent_entry_witness:
  "within_root (path_resolve (cwd demo_lib) [root demo_opts])
     (path_resolve (cwd demo_lib) [''/srv/a'', ''..'']) \<and>
   path_join [''/srv/a'', ''..''] = ''/srv'' \<and>
   on_sorted demo_lib demo_opts demo_fs (get ''/a'') (demo_url_parse ''/a'') ''/a'' ''/srv/a''
     [] [] [] =
   render demo_lib demo_opts demo_fs (get ''/a'') (demo_url_parse ''/a'') ''/a''
     [(''..'', StatsObj dir_stats)] [] [] ''/srv/a'' \<and>
   \<not> prefix (path_resolve (cwd demo_lib) [root demo_opts])
       (path_resolve (cwd demo_lib) [''/srv'', ''..'']) \<and>
   on_sorted demo_lib demo_opts demo_fs (get ''/'') (demo_url_parse ''/'') ''/'' ''/srv''
     [] [] [] =
   render demo_lib demo_opts demo_fs (get ''/'') (demo_url_parse ''/'') ''/'' [] [] [] ''/srv''"
proof -
  have 1: "within_root (path_resolve (cwd demo_lib) [root demo_opts])
             (path_resolve (cwd demo_lib) [''/srv/a'', ''..''])"
    by (simp add: demo_lib_sel demo_opts_sel demo_paths within_root_def)
  have 2: "\<not> prefix (path_resolve (cwd demo_lib) [root demo_opts])
             (path_resolve (cwd demo_lib) [''/srv'', ''..''])"
    by (simp add: demo_lib_sel demo_opts_sel demo_paths)
  from 1 2
    parent_entry[of demo_lib demo_opts "''/srv/a''" demo_fs "get ''/a''" "demo_url_parse ''/a''"
      "''/a''" "[]" "[]" "[]"]
    parent_entry[of demo_lib demo_opts "''/srv''" demo_fs "get ''/''" "demo_url_parse ''/''"
      "''/''" "[]" "[]" "[]"]
  show ?thesis
    by (simp add: demo_paths demo_parent_stats)
qed

text \<open>
  The entry does not follow from the place of the parent alone. The parent \<^verbatim>\<open>/srv\<close> of
  \<^verbatim>\<open>/srv/a\<close> is the root, and when its stat fails the request ends with the status
  handler and no entry is added. The parent \<^verbatim>\<open>/srvother\<close> of \<^verbatim>\<open>/srvother/x\<close> is not
  within the root \<^verbatim>\<open>/srv\<close> (a request for \<^verbatim>\<open>/srvother/x\<close> gets there when the base
  directory is \<^verbatim>\<open>/base\<close>), and the entry is added: the test compares strings.
\<close>

theorem parent_entry_counterexample:
  "within_root (path_resolve (cwd demo_lib) [root demo_opts])
     (path_resolve (cwd demo_lib) [''/srv/a'', ''..'']) \<and>
   on_sorted demo_lib demo_opts (fs_without ''/srv'') (get ''/a'') (demo_url_parse ''/a'') ''/a''
     ''/srv/a'' [] [] [] = ([Status500 (SystemError ''ENOENT'')], None) \<and>
   \<not> within_root (path_resolve (cwd demo_lib) [root demo_opts])
       (path_resolve (cwd demo_lib) [''/srvother/x'', ''..'']) \<and>
   target_dir demo_lib (demo_opts\<lparr>baseDir := ''/base''\<rparr>) ''/srvother/x'' = ''/srvother/x'' \<and>
   on_sorted demo_lib (demo_opts\<lparr>baseDir := ''/base''\<rparr>) fs_with_sibling (get ''/srvother/x'')
     (demo_url_parse ''/srvother/x'') ''/srvother/x'' ''/srvother/x'' [] [] [] =
   render demo_lib (demo_opts\<lparr>baseDir := ''/base''\<rparr>) fs_with_sibling (get ''/srvother/x'')
     (demo_url_parse ''/srvother/x'') ''/srvother/x'' [(''..'', StatsObj dir_stats)] [] []
     ''/srvother/x''"
proof -
  have t: "target_dir demo_lib (demo_opts\<lparr>baseDir := ''/base''\<rparr>) ''/srvother/x'' = ''/srvother/x''"
    by (simp add: target_dir_def demo_lib_sel demo_opts_def path_resolve_def path_join_def
        path_normalize_def path_relative_def path_segments_def normalizeString_def Let_def)
  have r: "root (demo_opts\<lparr>baseDir := ''/base''\<rparr>) = ''/srv''"
    by (simp add: demo_opts_def)
  show ?thesis
    by (simp add: t r on_sorted_def Let_def demo_lib_sel demo_opts_sel demo_paths
        demo_parent_stats within_root_def error_outcome_def)
qed

subsection \<open>What a request can produce\<close>

lemma forEach_writeRow_fails:
  "file \<in> set files \<Longrightarrow> w file = Inl err \<Longrightarrow> \<exists>e. forEach_writeRow w files = Inl e"
  by (induction files) (auto split: sum.splits)

lemma table_rows_fails:
  assumes "file \<in> set dirs \<union> set renderFiles \<union> set lolwuts"
    and "writeRow L cfg F parsed parent file = Inl err"
  shows "\<exists>e. table_rows L cfg F parsed dirs renderFiles lolwuts parent = Inl e"
proof -
  let ?w = "writeRow L cfg F parsed parent"
  let ?d = "sort_key (\<lambda>a. collate L (fst a)) dirs"
  let ?f = "sort_key (\<lambda>a. collate L (entry_toString a)) renderFiles"
  let ?u = "sort_key (\<lambda>a. collate L (fst a)) lolwuts"
  from assms(1) have "file \<in> set ?d \<or> file \<in> set ?f \<or> file \<in> set ?u"
    by simp
  then have "(\<exists>e. forEach_writeRow ?w ?d = Inl e) \<or> (\<exists>e. forEach_writeRow ?w ?f = Inl e) \<or>
             (\<exists>e. forEach_writeRow ?w ?u = Inl e)"
    using assms(2) by (meson forEach_writeRow_fails)
  then show ?thesis
    unfolding table_rows_def by (auto split: sum.splits)
qed

lemma render_without_host:
  assumes "host req = None"
  shows "render L cfg F req parsed decoded dirs renderFiles lolwuts parent =
           ([], Some (case table_rows L cfg F parsed dirs renderFiles lolwuts parent of
                        Inl err \<Rightarrow> err | Inr rows \<Rightarrow> TypeError))"
  using assms by (simp add: render_def Let_def split: sum.splits)

lemma render_cases:
  "(\<exists>e. render L cfg F req parsed decoded dirs renderFiles lolwuts parent = ([], Some e)) \<or>
   (\<exists>html. render L cfg F req parsed decoded dirs renderFiles lolwuts parent =
            ([WriteHead 200 [(''Content-Type'', ''text/html'')], End html], None))"
  by (simp add: render_def Let_def split: sum.splits option.splits)

lemma on_sorted_cases:
  "(\<exists>e. on_sorted L cfg F req parsed decoded dir lolwuts dirs sortedFiles = ([], Some e)) \<or>
   (\<exists>err. on_sorted L cfg F req parsed decoded dir lolwuts dirs sortedFiles =
            (error_outcome cfg err, None)) \<or>
   (\<exists>html. on_sorted L cfg F req parsed decoded dir lolwuts dirs sortedFiles =
            ([WriteHead 200 [(''Content-Type'', ''text/html'')], End html], None))"
proof (cases "prefix (path_resolve (cwd L) [root cfg]) (path_resolve (cwd L) [dir, ''..''])")
  case False
  then show ?thesis
    using render_cases[of L cfg F req parsed decoded dirs sortedFiles lolwuts dir]
    by (auto simp: on_sorted_def Let_def take_is_root)
next
  case True
  show ?thesis
  proof (cases "call_stat F (path_join [dir, ''..''])")
    case (Throws exn)
    with True show ?thesis
      by (auto simp: on_sorted_def Let_def take_is_root)
  next
    case (Fails err)
    with True show ?thesis
      by (auto simp: on_sorted_def Let_def take_is_root)
  next
    case (Gives s)
    with True show ?thesis
      using render_cases[of L cfg F req parsed decoded "(''..'', StatsObj s) # dirs" sortedFiles lolwuts dir]
      by (auto simp: on_sorted_def Let_def take_is_root)
  qed
qed

lemma answers_headers [simp]:
  "answers (listing_headers L cfg st @ calls, exn) = answers (calls, exn)"
  by (simp add: answers_def listing_headers_def)

lemma answers_error [simp]: "answers (error_outcome cfg err, exn) = error_outcome cfg err"
  by (simp add: answers_def error_outcome_def)

lemma error_response_error [simp]: "error_response cfg (error_outcome cfg err)"
  by (simp add: error_outcome_def)

lemma html_response_error [simp]: "\<not> html_response (error_outcome cfg err)"
  by (simp add: error_outcome_def)

text \<open>Once the path is decoded, the directory is read and its entries are classified,
  the request is in the hands of the \<^verbatim>\<open>sortFiles\<close> callback.\<close>

lemma middleware_listing:
  assumes "decodeURIComponent L (pathname (url_parse L (url req))) = Inr decoded"
    and "call_stat F (target_dir L cfg decoded) = Gives st"
    and "call_readdir F (target_dir L cfg decoded) = Gives allFiles"
    and "sortFiles F (target_dir L cfg decoded) (filter_dotfiles cfg allFiles) =
           Inr (lolwuts, dirs, sortedFiles)"
    and "on_sorted L cfg F req (url_parse L (url req)) decoded (target_dir L cfg decoded)
           lolwuts dirs sortedFiles = (calls, exn)"
  shows "middleware L cfg F req = (listing_headers L cfg st @ calls, exn)"
  using assms by (simp add: middleware_def Let_def)

lemma middleware_unsorted:
  assumes "decodeURIComponent L (pathname (url_parse L (url req))) = Inr decoded"
    and "call_stat F (target_dir L cfg decoded) = Gives st"
    and "call_readdir F (target_dir L cfg decoded) = Gives allFiles"
    and "sortFiles F (target_dir L cfg decoded) (filter_dotfiles cfg allFiles) = Inl exn"
  shows "middleware L cfg F req = (listing_headers L cfg st, Some exn)"
  using assms by (simp add: middleware_def Let_def)

text \<open>A request from which no exception escapes gets one outcome: the HTML response or
  the error outcome, and not both.\<close>

lemma one_outcome_unless_exception:
  assumes "snd (middleware L cfg F req) = None"
  shows "html_response (answers (middleware L cfg F req)) \<noteq>
         error_response cfg (answers (middleware L cfg F req))"
proof (cases "decodeURIComponent L (pathname (url_parse L (url req)))")
  case (Inl err)
  with assms show ?thesis by (simp add: middleware_def Let_def)
next
  case (Inr decoded)
  note dec = this
  show ?thesis
  proof (cases "call_stat F (target_dir L cfg decoded)")
    case (Throws exn)
    with dec assms show ?thesis by (simp add: middleware_def Let_def)
  next
    case (Fails err)
    with dec show ?thesis by (simp add: middleware_def Let_def)
  next
    case (Gives st)
    note st = this
    show ?thesis
    proof (cases "call_readdir F (target_dir L cfg decoded)")
      case (Throws exn)
      with dec st assms show ?thesis by (simp add: middleware_def Let_def)
    next
      case (Fails err)
      with dec st show ?thesis by (simp add: middleware_def Let_def)
    next
      case (Gives allFiles)
      note rd = this
      show ?thesis
      proof (cases "sortFiles F (target_dir L cfg decoded) (filter_dotfiles cfg allFiles)")
        case (Inl exn)
        from middleware_unsorted[OF dec st rd Inl] assms show ?thesis by simp
      next
        case (Inr buckets)
        obtain lolwuts dirs sortedFiles where b: "buckets = (lolwuts, dirs, sortedFiles)"
          by (cases buckets) auto
        obtain calls exn where
          os: "on_sorted L cfg F req (url_parse L (url req)) decoded (target_dir L cfg decoded)
                 lolwuts dirs sortedFiles = (calls, exn)"
          by (cases "on_sorted L cfg F req (url_parse L (url req)) decoded
                 (target_dir L cfg decoded) lolwuts dirs sortedFiles") auto
        have m: "middleware L cfg F req = (listing_headers L cfg st @ calls, exn)"
          by (rule middleware_listing[OF dec st rd Inr[unfolded b] os])
        with assms have "exn = None" by simp
        with os on_sorted_cases[of L cfg F req "url_parse L (url req)" decoded
            "target_dir L cfg decoded" lolwuts dirs sortedFiles]
        show ?thesis
          unfolding m
          by (auto simp: answers_def listing_headers_def error_outcome_def split: if_splits)
      qed
    qed
  qed
qed

subsection \<open>Running the examples\<close>

lemma demo_decode: "demo_decodeURIComponent ''/a/'' = Inr ''/a/''"
  by simp

lemma demo_target: "target_dir demo_lib demo_opts ''/a/'' = ''/srv/a''"
  by (simp add: target_dir_def demo_lib_sel demo_opts_sel path_resolve_def path_join_def
      path_normalize_def path_relative_def path_segments_def normalizeString_def Let_def)

lemma demo_sorted_keys:
  "sort_key (\<lambda>a. collate demo_lib (entry_toString a))
     [(''b'', StatsObj file_stats), (''b c'', StatsObj file_stats)] =
   [(''b c'', StatsObj file_stats), (''b'', StatsObj file_stats)]"
  by (simp add: demo_lib_sel entry_toString_def)

lemma demo_sorted_names:
  "sort_key (\<lambda>a. collate demo_lib (fst a))
     [(''b'', StatsObj file_stats), (''b c'', StatsObj file_stats)] =
   [(''b'', StatsObj file_stats), (''b c'', StatsObj file_stats)]"
  by (simp add: demo_lib_sel)

subsection \<open>Exceptions while the page is rendered\<close>

lemma writeRow_ok:
  assumes "slot_isDir (snd file) \<or> \<not> ends_with ''.url'' (fst file) \<or>
           (\<exists>content. call_readFileSync F (path_resolve (cwd L) [parent, fst file]) = Inr content)"
  shows "\<exists>r. writeRow L cfg F parsed parent file = Inr r"
proof (cases "slot_isDir (snd file) \<or> \<not> ends_with ''.url'' (fst file)")
  case True
  then show ?thesis by (simp add: writeRow_plain)
next
  case False
  with assms obtain content where
    "call_readFileSync F (path_resolve (cwd L) [parent, fst file]) = Inr content"
    by auto
  with False show ?thesis by (simp add: writeRow_shortcut)
qed

lemma forEach_writeRow_ok:
  "(\<And>file. file \<in> set files \<Longrightarrow> \<exists>r. w file = Inr r) \<Longrightarrow> \<exists>rows. forEach_writeRow w files = Inr rows"
proof (induction files)
  case Nil
  then show ?case by simp
next
  case (Cons a files)
  then obtain r rows where "w a = Inr r" "forEach_writeRow w files = Inr rows"
    by (meson list.set_intros)
  then show ?case by simp
qed

lemma table_rows_ok:
  assumes "\<And>file. file \<in> set dirs \<union> set renderFiles \<union> set lolwuts \<Longrightarrow>
             \<exists>r. writeRow L cfg F parsed parent file = Inr r"
  shows "\<exists>rows. table_rows L cfg F parsed dirs renderFiles lolwuts parent = Inr rows"
proof -
  let ?w = "writeRow L cfg F parsed parent"
  obtain r1 where 1: "forEach_writeRow ?w (sort_key (\<lambda>a. collate L (fst a)) dirs) = Inr r1"
    using forEach_writeRow_ok[of "sort_key (\<lambda>a. collate L (fst a)) dirs" ?w] assms by auto
  obtain r2 where 2: "forEach_writeRow ?w (sort_key (\<lambda>a. collate L (entry_toString a)) renderFiles) = Inr r2"
    using forEach_writeRow_ok[of "sort_key (\<lambda>a. collate L (entry_toString a)) renderFiles" ?w] assms by auto
  obtain r3 where 3: "forEach_writeRow ?w (sort_key (\<lambda>a. collate L (fst a)) lolwuts) = Inr r3"
    using forEach_writeRow_ok[of "sort_key (\<lambda>a. collate L (fst a)) lolwuts" ?w] assms by auto
  show ?thesis
    by (simp add: table_rows_def 1 2 3)
qed

text \<open>
  C9. A shortcut that cannot be read: when an entry of any bucket is not a directory, has
  a name ending in \<^verbatim>\<open>.url\<close> and its file cannot be read, \<^verbatim>\<open>writeRow\<close> throws the
  error of the read and \<^verbatim>\<open>render\<close> ends with an exception, nothing having been called
  on the response.
\<close>

theorem unreadable_shortcut_aborts:
  assumes "file \<in> set dirs \<union> set renderFiles \<union> set lolwuts"
    and "\<not> slot_isDir (snd file)"
    and "ends_with ''.url'' (fst file)"
    and "call_readFileSync F (path_resolve (cwd L) [parent, fst file]) = Inl err"
  shows "writeRow L cfg F parsed parent file = Inl err \<and>
         (\<exists>e. render L cfg F req parsed decoded dirs renderFiles lolwuts parent = ([], Some e))"
proof -
  have w: "writeRow L cfg F parsed parent file = Inl err"
    using assms(2-4) by (simp add: writeRow_shortcut)
  from table_rows_fails[OF assms(1) w]
  obtain e where "table_rows L cfg F parsed dirs renderFiles lolwuts parent = Inl e"
    by auto
  then have "render L cfg F req parsed decoded dirs renderFiles lolwuts parent = ([], Some e)"
    by (simp add: render_def)
  with w show ?thesis by auto
qed

lemma demo_gone_path:
  "path_resolve ''/home/node'' [''/srv/broken'', ''gone.url''] = ''/srv/broken/gone.url''"
  by (simp add: path_resolve_def normalizeString_def Let_def)

theorem unreadable_shortcut_aborts_witness:
  "writeRow demo_lib demo_opts demo_fs (demo_url_parse ''/broken/'') ''/srv/broken''
     (''gone.url'', StatsObj file_stats) = Inl (SystemError ''ENOENT'') \<and>
   (\<exists>e. render demo_lib demo_opts demo_fs (get ''/broken/'') (demo_url_parse ''/broken/'')
          ''/broken/'' [(''..'', StatsObj dir_stats)] [(''gone.url'', StatsObj file_stats)] []
          ''/srv/broken'' = ([], Some e))"
proof -
  have 1: "(''gone.url'', StatsObj file_stats) \<in>
           set [(''..'', StatsObj dir_stats)] \<union> set [(''gone.url'', StatsObj file_stats)] \<union> set []"
    by simp
  have 2: "\<not> slot_isDir (snd (''gone.url'', StatsObj file_stats))"
    by (simp add: file_stats_def)
  have 3: "ends_with ''.url'' (fst (''gone.url'', StatsObj file_stats))"
    by (simp add: ends_with_def)
  have 4: "call_readFileSync demo_fs
             (path_resolve (cwd demo_lib) [''/srv/broken'', fst (''gone.url'', StatsObj file_stats)]) =
           Inl (SystemError ''ENOENT'')"
    by (simp add: demo_lib_sel demo_gone_path demo_fs_def call_readFileSync_def has_nul_def)
  from unreadable_shortcut_aborts[OF 1 2 3 4] show ?thesis by simp
qed

lemma middleware_unhosted:
  assumes "host req = None"
    and "decodeURIComponent L (pathname (url_parse L (url req))) = Inr decoded"
    and "call_stat F (target_dir L cfg decoded) = Gives st"
    and "call_readdir F (target_dir L cfg decoded) = Gives allFiles"
    and "prefix (path_resolve (cwd L) [root cfg])
           (path_resolve (cwd L) [target_dir L cfg decoded, ''..'']) \<longrightarrow>
         (\<exists>s. call_stat F (path_join [target_dir L cfg decoded, ''..'']) = Gives s)"
  shows "\<exists>e. middleware L cfg F req = (listing_headers L cfg st, Some e)"
proof (cases "sortFiles F (target_dir L cfg decoded) (filter_dotfiles cfg allFiles)")
  case (Inl exn)
  from middleware_unsorted[OF assms(2,3,4) Inl] show ?thesis by blast
next
  case (Inr buckets)
  let ?dir = "target_dir L cfg decoded"
  obtain lolwuts dirs sortedFiles where b: "buckets = (lolwuts, dirs, sortedFiles)"
    by (cases buckets) auto
  have "\<exists>e. on_sorted L cfg F req (url_parse L (url req)) decoded ?dir lolwuts dirs sortedFiles =
          ([], Some e)"
    using assms(1,5)
    by (auto simp: on_sorted_def Let_def take_is_root render_without_host)
  then obtain e where
    "on_sorted L cfg F req (url_parse L (url req)) decoded ?dir lolwuts dirs sortedFiles =
       ([], Some e)" ..
  from middleware_listing[OF assms(2,3,4) Inr[unfolded b] this] show ?thesis by auto
qed

text \<open>
  C8. A request without a \<^verbatim>\<open>host\<close> header: once the path is decoded, the directory is
  stat'ed and read, and the stat of the parent, where the parent entry is due, has
  succeeded, \<^verbatim>\<open>render\<close> throws before \<^verbatim>\<open>writeHead\<close>: the TypeError of \<^verbatim>\<open>endsWith\<close>
  on \<^verbatim>\<open>undefined\<close>, or the error of a shortcut that could not be read. The headers
  are set and there is neither an HTML response nor an error outcome.
\<close>

theorem missing_host_throws:
  assumes "host req = None"
    and "decodeURIComponent L (pathname (url_parse L (url req))) = Inr decoded"
    and "call_stat F (target_dir L cfg decoded) = Gives st"
    and "call_readdir F (target_dir L cfg decoded) = Gives allFiles"
    and "prefix (path_resolve (cwd L) [root cfg])
           (path_resolve (cwd L) [target_dir L cfg decoded, ''..'']) \<longrightarrow>
         (\<exists>s. call_stat F (path_join [target_dir L cfg decoded, ''..'']) = Gives s)"
  shows "(\<exists>e. middleware L cfg F req = (listing_headers L cfg st, Some e)) \<and>
         answers (middleware L cfg F req) = [] \<and>
         \<not> html_response (answers (middleware L cfg F req)) \<and>
         \<not> error_response cfg (answers (middleware L cfg F req)) \<and>
         (\<forall>dirs renderFiles lolwuts parent.
            render L cfg F req (url_parse L (url req)) decoded dirs renderFiles lolwuts parent =
              ([], Some (case table_rows L cfg F (url_parse L (url req)) dirs renderFiles
                                lolwuts parent of
                           Inl err \<Rightarrow> err
                         | Inr rows \<Rightarrow> TypeError)))"
proof -
  from middleware_unhosted[OF assms] obtain e where
    m: "middleware L cfg F req = (listing_headers L cfg st, Some e)" ..
  have a: "answers (middleware L cfg F req) = []"
    unfolding m by (simp add: answers_def listing_headers_def)
  show ?thesis
    using m render_without_host[OF assms(1)] unfolding a by auto
qed

subsection \<open>Errors of the file system\<close>




lemma middleware_parent_stat_fails:
  assumes "decodeURIComponent L (pathname (url_parse L (url req))) = Inr decoded"
    and "call_stat F (target_dir L cfg decoded) = Gives st"
    and "call_readdir F (target_dir L cfg decoded) = Gives allFiles"
    and "sortFiles F (target_dir L cfg decoded) (filter_dotfiles cfg allFiles) = Inr buckets"
    and "prefix (path_resolve (cwd L) [root cfg])
           (path_resolve (cwd L) [target_dir L cfg decoded, ''..''])"
    and "call_stat F (path_join [target_dir L cfg decoded, ''..'']) = Fails err"
  shows "middleware L cfg F req = (listing_headers L cfg st @ error_outcome cfg err, None)"
proof -
  let ?dir = "target_dir L cfg decoded"
  obtain lolwuts dirs sortedFiles where b: "buckets = (lolwuts, dirs, sortedFiles)"
    by (cases buckets) auto
  have "on_sorted L cfg F req (url_parse L (url req)) decoded ?dir lolwuts dirs sortedFiles =
          (error_outcome cfg err, None)"
    using assms(5,6) by (simp add: on_sorted_def Let_def take_is_root)
  from middleware_listing[OF assms(1,2,3) assms(4)[unfolded b] this] show ?thesis .
qed


subsection \<open>The example file system\<close>

lemma demo_request:
  "url (get u) = u"
  "url (get_without_host u) = u"
  "host (get_without_host u) = None"
  "host (get u) = Some ''localhost:8080''"
  by (simp_all add: demo_lib_sel get_def get_without_host_def)

lemma demo_decoded:
  "demo_decodeURIComponent (pathname (demo_url_parse ''/'')) = Inr ''/''"
  "demo_decodeURIComponent (pathname (demo_url_parse ''/a/'')) = Inr ''/a/''"
  "demo_decodeURIComponent (pathname (demo_url_parse ''/z.txt'')) = Inr ''/z.txt''"
  "demo_decodeURIComponent (pathname (demo_url_parse ''/broken/'')) = Inr ''/broken/''"
  "demo_decodeURIComponent (pathname (demo_url_parse ''/a%00b'')) = Inr (''/a'' @ [CHR 0x00] @ ''b'')"
  by (simp_all add: demo_url_parse_def hex_value_def char_of_def)

lemma demo_target_root: "target_dir demo_lib demo_opts ''/'' = ''/srv''"
  by (simp add: target_dir_def demo_lib_sel demo_opts_sel path_resolve_def path_join_def
      path_normalize_def path_relative_def path_segments_def normalizeString_def Let_def)


lemma demo_target_broken: "target_dir demo_lib demo_opts ''/broken/'' = ''/srv/broken''"
  by (simp add: target_dir_def demo_lib_sel demo_opts_sel path_resolve_def path_join_def
      path_normalize_def path_relative_def path_segments_def normalizeString_def Let_def)



lemma demo_stats_sel: "isDirectory dir_stats" "\<not> isDirectory file_stats"
  by (simp_all add: dir_stats_def file_stats_def)

lemma demo_calls:
  "call_stat demo_fs ''/srv/a'' = Gives dir_stats"
  "call_stat demo_fs ''/srv/broken'' = Gives dir_stats"
  "call_stat demo_fs ''/srv/z.txt'' = Gives file_stats"
  "call_stat demo_fs (''/srv/a'' @ [CHR 0x00] @ ''b'') = Throws TypeError"
  "call_readdir demo_fs ''/srv'' =
     Gives [''.env'', ''z.txt'', ''link.url'', ''ghost'', ''a'', ''broken'']"
  "call_readdir demo_fs ''/srv/a'' = Gives [''b'', ''x.png'', ''b c'', ''png'']"
  "call_readdir demo_fs ''/srv/broken'' = Gives [''gone.url'']"
  "call_readdir demo_fs ''/srv/z.txt'' = Fails (SystemError ''ENOTDIR'')"
  by (simp_all add: call_stat_def call_readdir_def has_nul_def demo_fs_def)

lemma fs_without_calls:
  "call_stat (fs_without ''/srv/a'') ''/srv/a'' = Fails (SystemError ''ENOENT'')"
  "call_stat (fs_without ''/srv'') ''/srv/a'' = Gives dir_stats"
  "call_readdir (fs_without ''/srv'') ''/srv/a'' = Gives [''b'', ''x.png'', ''b c'', ''png'']"
  by (simp_all add: call_stat_def call_readdir_def has_nul_def demo_fs_def fs_without_def)

lemma demo_entry_stats:
  "call_stat demo_fs (path_join [''/srv'', ''z.txt'']) = Gives file_stats"
  "call_stat demo_fs (path_join [''/srv'', ''link.url'']) = Gives file_stats"
  "call_stat demo_fs (path_join [''/srv'', ''ghost'']) = Fails (SystemError ''ENOENT'')"
  "call_stat demo_fs (path_join [''/srv'', ''a'']) = Gives dir_stats"
  "call_stat demo_fs (path_join [''/srv'', ''broken'']) = Gives dir_stats"
  "call_stat demo_fs (path_join [''/srv/a'', ''b'']) = Gives file_stats"
  "call_stat demo_fs (path_join [''/srv/a'', ''b c'']) = Gives file_stats"
  "call_stat demo_fs (path_join [''/srv/broken'', ''gone.url'']) = Gives file_stats"
  by (simp_all add: path_join_def path_normalize_def normalizeString_def Let_def call_stat_def
      has_nul_def demo_fs_def)

lemma fs_without_entry_stats:
  "call_stat (fs_without ''/srv'') (path_join [''/srv/a'', ''b'']) = Gives file_stats"
  "call_stat (fs_without ''/srv'') (path_join [''/srv/a'', ''x.png'']) = Gives file_stats"
  "call_stat (fs_without ''/srv'') (path_join [''/srv/a'', ''b c'']) = Gives file_stats"
  "call_stat (fs_without ''/srv'') (path_join [''/srv/a'', ''png'']) = Gives file_stats"
  by (simp_all add: path_join_def path_normalize_def normalizeString_def Let_def call_stat_def
      has_nul_def demo_fs_def fs_without_def)

lemma demo_root_sorted:
  "sortFiles demo_fs ''/srv'' [''z.txt'', ''link.url'', ''ghost'', ''a'', ''broken''] =
     Inr ([(''ghost'', ErrObj (SystemError ''ENOENT''))],
          [(''a'', StatsObj dir_stats), (''broken'', StatsObj dir_stats)],
          [(''z.txt'', StatsObj file_stats), (''link.url'', StatsObj file_stats)])"
  by (simp add: demo_entry_stats demo_stats_sel)

lemma fs_without_sorted:
  "sortFiles (fs_without ''/srv'') ''/srv/a'' [''b'', ''x.png'', ''b c'', ''png''] =
     Inr ([], [],
          [(''b'', StatsObj file_stats), (''x.png'', StatsObj file_stats),
           (''b c'', StatsObj file_stats), (''png'', StatsObj file_stats)])"
  by (simp add: fs_without_entry_stats demo_stats_sel)

lemma demo_filtered:
  "filter_dotfiles cfg [''b'', ''x.png'', ''b c'', ''png''] = [''b'', ''x.png'', ''b c'', ''png'']"
  "filter_dotfiles demo_opts [''.env'', ''z.txt'', ''link.url'', ''ghost'', ''a'', ''broken''] =
     [''z.txt'', ''link.url'', ''ghost'', ''a'', ''broken'']"
  "filter_dotfiles cfg [''gone.url''] = [''gone.url'']"
  by (simp_all add: filter_dotfiles_def demo_opts_sel)

subsection \<open>Errors of the file system, on the example\<close>



subsection \<open>Requests without a host header on the example file system\<close>

theorem missing_host_throws_witness:
  "\<exists>e. middleware demo_lib demo_opts demo_fs (get_without_host ''/a/'') =
         (listing_headers demo_lib demo_opts dir_stats, Some e)"
proof -
  have 1: "host (get_without_host ''/a/'') = None"
    by (simp add: demo_request)
  have 2: "decodeURIComponent demo_lib
             (pathname (url_parse demo_lib (url (get_without_host ''/a/'')))) = Inr ''/a/''"
    by (simp add: demo_request demo_lib_sel demo_decoded)
  have 3: "call_stat demo_fs (target_dir demo_lib demo_opts ''/a/'') = Gives dir_stats"
    by (simp add: demo_target demo_calls)
  have 4: "call_readdir demo_fs (target_dir demo_lib demo_opts ''/a/'') =
             Gives [''b'', ''x.png'', ''b c'', ''png'']"
    by (simp add: demo_target demo_calls)
  have 5: "prefix (path_resolve (cwd demo_lib) [root demo_opts])
             (path_resolve (cwd demo_lib) [target_dir demo_lib demo_opts ''/a/'', ''..'']) \<longrightarrow>
           (\<exists>s. call_stat demo_fs (path_join [target_dir demo_lib demo_opts ''/a/'', ''..'']) =
                  Gives s)"
    by (simp add: demo_target demo_paths demo_parent_stats)
  from missing_host_throws[OF 1 2 3 4 5] show ?thesis by simp
qed

text \<open>
  Without the condition on the parent: the request has no \<^verbatim>\<open>host\<close> header, the
  directory \<^verbatim>\<open>/srv/a\<close> is stat'ed, read and classified, and the stat of its parent
  fails. The status handler is called and \<^verbatim>\<open>render\<close> is not.
\<close>

theorem missing_host_parent_stat_counterexample:
  "host (get_without_host ''/a/'') = None \<and>
   call_stat (fs_without ''/srv'') (target_dir demo_lib demo_opts ''/a/'') = Gives dir_stats \<and>
   call_readdir (fs_without ''/srv'') (target_dir demo_lib demo_opts ''/a/'') =
     Gives [''b'', ''x.png'', ''b c'', ''png''] \<and>
   sortFiles (fs_without ''/srv'') (target_dir demo_lib demo_opts ''/a/'')
     (filter_dotfiles demo_opts [''b'', ''x.png'', ''b c'', ''png'']) =
     Inr ([], [],
          [(''b'', StatsObj file_stats), (''x.png'', StatsObj file_stats),
           (''b c'', StatsObj file_stats), (''png'', StatsObj file_stats)]) \<and>
   middleware demo_lib demo_opts (fs_without ''/srv'') (get_without_host ''/a/'') =
     (listing_headers demo_lib demo_opts dir_stats @ [Status500 (SystemError ''ENOENT'')], None) \<and>
   error_response demo_opts
     (answers (middleware demo_lib demo_opts (fs_without ''/srv'') (get_without_host ''/a/'')))"
proof -
  have 2: "decodeURIComponent demo_lib
             (pathname (url_parse demo_lib (url (get_without_host ''/a/'')))) = Inr ''/a/''"
    by (simp add: demo_request demo_lib_sel demo_decoded)
  have 3: "call_stat (fs_without ''/srv'') (target_dir demo_lib demo_opts ''/a/'') = Gives dir_stats"
    by (simp add: demo_target fs_without_calls)
  have 4: "call_readdir (fs_without ''/srv'') (target_dir demo_lib demo_opts ''/a/'') =
             Gives [''b'', ''x.png'', ''b c'', ''png'']"
    by (simp add: demo_target fs_without_calls)
  have 5: "prefix (path_resolve (cwd demo_lib) [root demo_opts])
             (path_resolve (cwd demo_lib) [target_dir demo_lib demo_opts ''/a/'', ''..''])"
    by (simp add: demo_target demo_paths demo_lib_sel demo_opts_sel)
  have 6: "call_stat (fs_without ''/srv'') (path_join [target_dir demo_lib demo_opts ''/a/'', ''..'']) =
             Fails (SystemError ''ENOENT'')"
    by (simp add: demo_target demo_paths demo_parent_stats)
  have 7: "sortFiles (fs_without ''/srv'') (target_dir demo_lib demo_opts ''/a/'')
     (filter_dotfiles demo_opts [''b'', ''x.png'', ''b c'', ''png'']) =
     Inr ([], [],
          [(''b'', StatsObj file_stats), (''x.png'', StatsObj file_stats),
           (''b c'', StatsObj file_stats), (''png'', StatsObj file_stats)])"
    unfolding demo_target demo_filtered by (rule fs_without_sorted)
  from middleware_parent_stat_fails[OF 2 3 4 7 5 6] 3 4 7 show ?thesis
    by (simp add: demo_request error_outcome_def demo_opts_sel answers_def listing_headers_def)
qed

subsection \<open>Requests that get no answer, rows out of order\<close>

text \<open>
  C1. One outcome for each request. It fails for a request without a \<^verbatim>\<open>host\<close> header:
  the listing of \<^verbatim>\<open>/srv\<close> is read and its rows are written, then \<^verbatim>\<open>render\<close> throws a
  TypeError; the four headers are set, and there is neither an HTML response nor an
  error outcome.
\<close>

theorem missing_host_no_outcome:
  "middleware demo_lib demo_opts demo_fs (get_without_host ''/'') =
     (listing_headers demo_lib demo_opts dir_stats, Some TypeError) \<and>
   \<not> html_response (answers (middleware demo_lib demo_opts demo_fs (get_without_host ''/''))) \<and>
   \<not> error_response demo_opts
        (answers (middleware demo_lib demo_opts demo_fs (get_without_host ''/'')))"
proof -
  let ?req = "get_without_host ''/''"
  let ?lolwuts = "[(''ghost'', ErrObj (SystemError ''ENOENT''))]"
  let ?dirs = "[(''a'', StatsObj dir_stats), (''broken'', StatsObj dir_stats)]"
  let ?files = "[(''z.txt'', StatsObj file_stats), (''link.url'', StatsObj file_stats)]"
  have 1: "decodeURIComponent demo_lib (pathname (url_parse demo_lib (url ?req))) = Inr ''/''"
    by (simp add: demo_request demo_lib_sel demo_decoded)
  have 2: "call_stat demo_fs (target_dir demo_lib demo_opts ''/'') = Gives dir_stats"
    by (simp add: demo_target_root demo_parent_stats)
  have 3: "call_readdir demo_fs (target_dir demo_lib demo_opts ''/'') =
             Gives [''.env'', ''z.txt'', ''link.url'', ''ghost'', ''a'', ''broken'']"
    by (simp add: demo_target_root demo_calls)
  have 4: "sortFiles demo_fs (target_dir demo_lib demo_opts ''/'')
             (filter_dotfiles demo_opts [''.env'', ''z.txt'', ''link.url'', ''ghost'', ''a'', ''broken'']) =
           Inr (?lolwuts, ?dirs, ?files)"
    unfolding demo_target_root demo_filtered by (rule demo_root_sorted)
  have "\<exists>r. writeRow demo_lib demo_opts demo_fs (url_parse demo_lib (url ?req)) ''/srv'' entry = Inr r"
    if "entry \<in> set ?dirs \<union> set ?files \<union> set ?lolwuts" for entry
    using that demo_link_read
    by (intro writeRow_ok) (auto simp: ends_with_def dir_stats_def)
  then obtain rows where
    "table_rows demo_lib demo_opts demo_fs (url_parse demo_lib (url ?req)) ?dirs ?files ?lolwuts
       ''/srv'' = Inr rows"
    using table_rows_ok[of ?dirs ?files ?lolwuts demo_lib demo_opts demo_fs
        "url_parse demo_lib (url ?req)" "''/srv''"]
    by blast
  then have
    "render demo_lib demo_opts demo_fs ?req (url_parse demo_lib (url ?req)) ''/'' ?dirs ?files
       ?lolwuts ''/srv'' = ([], Some TypeError)"
    by (simp add: render_without_host demo_request)
  then have 5:
    "on_sorted demo_lib demo_opts demo_fs ?req (url_parse demo_lib (url ?req)) ''/''
       (target_dir demo_lib demo_opts ''/'') ?lolwuts ?dirs ?files = ([], Some TypeError)"
    by (simp add: on_sorted_def Let_def demo_target_root demo_lib_sel demo_opts_sel demo_paths)
  from middleware_listing[OF 1 2 3 4 5] show ?thesis
    by (simp add: answers_def listing_headers_def)
qed

text \<open>
  C3. The order of the rows. The directories come first, then the files, then the
  unknowns, and the directories and the unknowns are sorted by name. The files are not:
  their comparison function compares \<^verbatim>\<open>a.toString()\<close>, the name followed by a comma and
  \<^verbatim>\<open>[object Object]\<close>. A space sorts before a comma, so the file \<^verbatim>\<open>b c\<close> is listed
  before the file \<^verbatim>\<open>b\<close>, whose name is smaller.
\<close>

theorem files_sorted_by_entry_string:
  "sortFiles demo_fs ''/srv/a'' [''b'', ''b c''] =
     Inr ([], [], [(''b'', StatsObj file_stats), (''b c'', StatsObj file_stats)]) \<and>
   (\<exists>rows. table_rows demo_lib demo_opts demo_fs (demo_url_parse ''/a/'') []
             [(''b'', StatsObj file_stats), (''b c'', StatsObj file_stats)] [] ''/srv/a'' =
             Inr rows \<and>
           map displayName rows = [''b c'', ''b'']) \<and>
   collate demo_lib ''b'' < collate demo_lib ''b c''"
proof (intro conjI)
  show "sortFiles demo_fs ''/srv/a'' [''b'', ''b c''] =
     Inr ([], [], [(''b'', StatsObj file_stats), (''b c'', StatsObj file_stats)])"
    by (simp add: demo_entry_stats demo_stats_sel)
next
  let ?w = "writeRow demo_lib demo_opts demo_fs (demo_url_parse ''/a/'') ''/srv/a''"
  obtain r1 where r1: "?w (''b c'', StatsObj file_stats) = Inr r1" and d1: "displayName r1 = ''b c''"
    by (simp add: writeRow_plain ends_with_def demo_lib_sel demo_he_encode_def demo_stats_sel)
  obtain r2 where r2: "?w (''b'', StatsObj file_stats) = Inr r2" and d2: "displayName r2 = ''b''"
    by (simp add: writeRow_plain ends_with_def demo_lib_sel demo_he_encode_def demo_stats_sel)
  have "table_rows demo_lib demo_opts demo_fs (demo_url_parse ''/a/'') []
             [(''b'', StatsObj file_stats), (''b c'', StatsObj file_stats)] [] ''/srv/a'' =
        Inr [r1, r2]"
    unfolding table_rows_def demo_sorted_keys by (simp add: r1 r2)
  with d1 d2 show "\<exists>rows. table_rows demo_lib demo_opts demo_fs (demo_url_parse ''/a/'') []
             [(''b'', StatsObj file_stats), (''b c'', StatsObj file_stats)] [] ''/srv/a'' =
             Inr rows \<and>
           map displayName rows = [''b c'', ''b'']"
    by simp
next
  show "collate demo_lib ''b'' < collate demo_lib ''b c''"
    by (simp add: demo_lib_sel)
qed

subsection \<open>The order of the rows, the buckets, and one more example\<close>

text \<open>The rows of a page follow the sorted buckets: directories, then files, then
  unknowns, one row for each entry.\<close>

lemma forEach_writeRow_rows:
  "forEach_writeRow w files = Inr rows \<Longrightarrow> list_all2 (\<lambda>entry r. w entry = Inr r) files rows"
  by (induction files arbitrary: rows) (auto split: sum.splits)

lemma table_rows_order:
  assumes "table_rows L cfg F parsed dirs renderFiles lolwuts parent = Inr rows"
  shows "list_all2 (\<lambda>entry r. writeRow L cfg F parsed parent entry = Inr r)
           (sort_key (\<lambda>a. collate L (fst a)) dirs @
            sort_key (\<lambda>a. collate L (entry_toString a)) renderFiles @
            sort_key (\<lambda>a. collate L (fst a)) lolwuts)
           rows"
proof -
  let ?w = "writeRow L cfg F parsed parent"
  from assms obtain r1 r2 r3 where
    1: "forEach_writeRow ?w (sort_key (\<lambda>a. collate L (fst a)) dirs) = Inr r1" and
    2: "forEach_writeRow ?w (sort_key (\<lambda>a. collate L (entry_toString a)) renderFiles) = Inr r2" and
    3: "forEach_writeRow ?w (sort_key (\<lambda>a. collate L (fst a)) lolwuts) = Inr r3" and
    r: "rows = r1 @ r2 @ r3"
    unfolding table_rows_def by (auto split: sum.splits)
  show ?thesis
    unfolding r
    by (intro list_all2_appendI forEach_writeRow_rows 1 2 3)
qed

text \<open>An entry put in front of the directories has its row on the page.\<close>

lemma parent_row_shown:
  assumes "table_rows L cfg F parsed ((''..'', StatsObj s) # dirs) renderFiles lolwuts parent =
             Inr rows"
  shows "\<exists>r \<in> set rows. writeRow L cfg F parsed parent (''..'', StatsObj s) = Inr r"
proof -
  let ?entries = "sort_key (\<lambda>a. collate L (fst a)) ((''..'', StatsObj s) # dirs) @
            sort_key (\<lambda>a. collate L (entry_toString a)) renderFiles @
            sort_key (\<lambda>a. collate L (fst a)) lolwuts"
  have "(''..'', StatsObj s) \<in> set ?entries"
    by (simp add: set_insort_key)
  then obtain i where i: "i < length ?entries" "?entries ! i = (''..'', StatsObj s)"
    by (meson in_set_conv_nth)
  from table_rows_order[OF assms] have
    l: "list_all2 (\<lambda>entry r. writeRow L cfg F parsed parent entry = Inr r) ?entries rows" .
  from i l have "i < length rows" "writeRow L cfg F parsed parent (''..'', StatsObj s) = Inr (rows ! i)"
    by (auto simp: list_all2_conv_all_nth)
  then show ?thesis
    by (meson nth_mem)
qed

text \<open>The directories and the unknowns are in the order of their names, the files in the
  order of their entry strings; sorting neither adds nor drops an entry.\<close>

lemma buckets_sorted:
  "sorted (map (\<lambda>a. collate L (fst a)) (sort_key (\<lambda>a. collate L (fst a)) bucket))"
  "sorted (map (\<lambda>a. collate L (entry_toString a))
             (sort_key (\<lambda>a. collate L (entry_toString a)) bucket))"
  "mset (sort_key (\<lambda>a. collate L (fst a)) bucket) = mset bucket"
  "mset (sort_key (\<lambda>a. collate L (entry_toString a)) bucket) = mset bucket"
  by simp_all

text \<open>The three buckets of \<open>sortFiles\<close> hold each name once.\<close>

lemma sortFiles_names:
  "sortFiles F dir names = Inr (errs, dirs, files) \<Longrightarrow>
   mset (map fst errs) + mset (map fst dirs) + mset (map fst files) = mset names"
  by (induction names arbitrary: errs dirs files)
    (auto split: prod.splits sum.splits if_splits fs_result.splits)

text \<open>The listing of \<^verbatim>\<open>/srv/broken\<close>, whose shortcut cannot be read, gets no answer.\<close>

lemma unreadable_shortcut_request:
  "middleware demo_lib demo_opts demo_fs (get ''/broken/'') =
     (listing_headers demo_lib demo_opts dir_stats, Some (SystemError ''ENOENT''))"
proof -
  let ?req = "get ''/broken/''"
  have 1: "decodeURIComponent demo_lib (pathname (url_parse demo_lib (url ?req))) = Inr ''/broken/''"
    by (simp add: demo_request demo_lib_sel demo_decoded)
  have 2: "call_stat demo_fs (target_dir demo_lib demo_opts ''/broken/'') = Gives dir_stats"
    by (simp add: demo_target_broken demo_calls)
  have 3: "call_readdir demo_fs (target_dir demo_lib demo_opts ''/broken/'') = Gives [''gone.url'']"
    by (simp add: demo_target_broken demo_calls)
  have 4: "sortFiles demo_fs (target_dir demo_lib demo_opts ''/broken/'')
             (filter_dotfiles demo_opts [''gone.url'']) =
           Inr ([], [], [(''gone.url'', StatsObj file_stats)])"
    unfolding demo_target_broken demo_filtered by (simp add: demo_entry_stats demo_stats_sel)
  have p: "path_resolve ''/home/node'' [''/srv/broken'', ''..''] = ''/srv''"
      "path_join [''/srv/broken'', ''..''] = ''/srv''"
    by (simp_all add: path_resolve_def path_join_def path_normalize_def normalizeString_def Let_def)
  have w: "writeRow demo_lib demo_opts demo_fs (url_parse demo_lib (url ?req)) ''/srv/broken''
             (''gone.url'', StatsObj file_stats) = Inl (SystemError ''ENOENT'')"
    by (simp add: writeRow_shortcut ends_with_def demo_stats_sel demo_lib_sel demo_gone_path
        demo_fs_def call_readFileSync_def has_nul_def)
  obtain r where r: "writeRow demo_lib demo_opts demo_fs (url_parse demo_lib (url ?req))
      ''/srv/broken'' (''..'', StatsObj dir_stats) = Inr r"
    by (simp add: writeRow_plain demo_stats_sel)
  have "table_rows demo_lib demo_opts demo_fs (url_parse demo_lib (url ?req))
          [(''..'', StatsObj dir_stats)] [(''gone.url'', StatsObj file_stats)] [] ''/srv/broken'' =
        Inl (SystemError ''ENOENT'')"
    by (simp add: table_rows_def r w)
  then have 5: "on_sorted demo_lib demo_opts demo_fs ?req (url_parse demo_lib (url ?req))
      ''/broken/'' (target_dir demo_lib demo_opts ''/broken/'') [] []
      [(''gone.url'', StatsObj file_stats)] = ([], Some (SystemError ''ENOENT''))"
    by (simp add: on_sorted_def Let_def demo_target_broken demo_lib_sel demo_opts_sel demo_paths p
        demo_parent_stats render_def)
  from middleware_listing[OF 1 2 3 4 5] show ?thesis by simp
qed

end
